theory Spec2Isabelle
  imports Main "HOL-Library.Char_ord" "HOL-Library.List_Lexorder"
begin

section \<open>Data model (prisma/schema.prisma)\<close>

text \<open>
  Every Prisma model is a record and every table a list of rows in insertion order.
  Identifiers are the strings produced by \<open>cuid()\<close>; \<open>DateTime\<close> columns are
  milliseconds since the epoch. Optional columns are \<open>option\<close> values. The columns
  \<open>typesExercice\<close> and \<open>typesUtilisateur\<close> are kept as the text the handlers write
  and compare.
\<close>

record Classes =
  c_id :: string
  c_nom :: string
  c_createdAt :: nat
  c_updatedAt :: nat

record Matieres =
  m_id :: string
  m_nom :: string
  m_description :: "string option"
  m_classesId :: string
  m_pointsTotalMatiere :: "int option"
  m_pointsSeuilMatiere :: "int option"
  m_createdAt :: nat
  m_updatedAt :: nat

record Lecons =
  l_id :: string
  l_nom :: string
  l_description :: "string option"
  l_matieresId :: string
  l_createdAt :: nat
  l_updatedAt :: nat

record SousLecons =
  s_id :: string
  s_nom :: string
  s_description :: "string option"
  s_leconsId :: string
  s_createdAt :: nat
  s_updatedAt :: nat

record Exercices =
  e_id :: string
  e_nom :: string
  e_description :: "string option"
  e_matieresId :: string
  e_sousLeconsId :: "string option"
  e_leconId :: "string option"
  e_typesExercice :: string
  e_createdAt :: nat
  e_updatedAt :: nat

record OptionsQCM =
  o_id :: string
  o_nom :: string
  o_description :: "string option"
  o_exercicesId :: string
  o_points :: "int option"
  o_isCorrect :: bool
  o_isSelected :: bool
  o_createdAt :: nat
  o_updatedAt :: nat

record LeconsUtilisateur =
  lu_id :: string
  lu_leconsId :: string
  lu_userId :: string

record Reponses =
  r_id :: string
  r_nom :: string
  r_description :: "string option"
  r_exercicesId :: string

record User =
  u_id :: string
  u_email :: string
  u_nom :: "string option"
  u_prenom :: "string option"
  u_password :: string
  u_dataInscription :: "string option"
  u_derniereConnexion :: "nat option"
  u_typesUtilisateur :: string
  u_classesId :: "string option"
  u_createdAt :: nat
  u_updatedAt :: nat

record db =
  classes :: "Classes list"
  matieres :: "Matieres list"
  lecons :: "Lecons list"
  sousLecons :: "SousLecons list"
  exercices :: "Exercices list"
  optionsQCM :: "OptionsQCM list"
  leconsUtilisateur :: "LeconsUtilisateur list"
  reponses :: "Reponses list"
  user :: "User list"

text \<open>
  The enumerations of the schema: \<open>TypesUtilisateur\<close>, whose default is \<open>ELEVE\<close>,
  and \<open>TypesExercice\<close>. The client refuses a write or a filter whose value for such a
  column is not a member.
\<close>

definition TypesUtilisateur :: "string list" where
  "TypesUtilisateur = [''ADMIN'', ''ELEVE'', ''MODERATOR'']"

definition TypesExercice :: "string list" where
  "TypesExercice = [''QCM'', ''Numerique'']"

text \<open>
  What a request gets from its platform: the clock, the identifiers the storage
  engine will assign to the rows the request creates, and the signing secret.
\<close>

record env =
  now :: nat
  cuid :: "nat \<Rightarrow> string"
  JWT_SECRET :: string


section \<open>The storage client and the responses\<close>

text \<open>
  The datasource of the schema is sqlite. The client generated for sqlite has no
  \<open>mode\<close> option in its string filters: a query whose \<open>where\<close> passes
  \<open>mode: "insensitive"\<close> is refused by the client with a validation error, which the
  handler's \<open>catch\<close> receives. On a datasource that has the option (postgresql) the
  comparison is without regard to letter case; the model lowers the ASCII letters of
  both sides. \<open>contains\<close> is substring containment.
\<close>

datatype provider = Sqlite | Postgresql

definition datasource :: provider where
  "datasource = Sqlite"

definition mode_refused :: bool where
  "mode_refused = (datasource = Sqlite)"

definition lower_char :: "char \<Rightarrow> char" where
  "lower_char c =
     (case map_of (zip ''ABCDEFGHIJKLMNOPQRSTUVWXYZ'' ''abcdefghijklmnopqrstuvwxyz'') c of
        None \<Rightarrow> c
      | Some l \<Rightarrow> l)"

definition lower :: "string \<Rightarrow> string" where
  "lower s = map lower_char s"

definition equals_insensitive :: "string \<Rightarrow> string \<Rightarrow> bool" where
  "equals_insensitive a b = (lower a = lower b)"

fun contains :: "string \<Rightarrow> string \<Rightarrow> bool" where
  "contains [] sub = (sub = [])"
| "contains (c # cs) sub = (take (length sub) (c # cs) = sub \<or> contains cs sub)"

definition contains_insensitive :: "string \<Rightarrow> string \<Rightarrow> bool" where
  "contains_insensitive s sub = contains (lower s) (lower sub)"

text \<open>A nullable text column never matches a \<open>contains\<close> filter when it is null.\<close>

definition contains_insensitive_opt :: "string option \<Rightarrow> string \<Rightarrow> bool" where
  "contains_insensitive_opt s sub =
     (case s of None \<Rightarrow> False | Some t \<Rightarrow> contains_insensitive t sub)"

text \<open>Decimal rendering of a number inside a template string.\<close>

fun show_nat :: "nat \<Rightarrow> string" where
  "show_nat n =
     (if n < 10 then [''0123456789'' ! n]
      else show_nat (n div 10) @ [''0123456789'' ! (n mod 10)])"

declare show_nat.simps [simp del]

text \<open>
  What a storage call can raise. A request is run with \<open>fault\<close>: \<open>Some k\<close> makes the
  storage call number \<open>k\<close> of the handler (counted from 0 in program order) raise
  \<open>StorageFailure\<close>, and \<open>None\<close> is a request during which the storage layer works.
  \<open>ForeignKeyViolation\<close> is what a delete raises when a row that must keep its
  parent still references the deleted row (\<open>ON DELETE RESTRICT\<close> in the migration),
  \<open>RecordNotFound\<close> what an update of a missing row raises, and
  \<open>ValidationError\<close> what the client raises for a query it refuses: a string
  filter with \<open>mode\<close>, a value outside an enumeration of the schema, a negative
  \<open>skip\<close>.
\<close>

datatype exn = StorageFailure | ForeignKeyViolation | RecordNotFound | ValidationError

record pagination =
  p_total :: "nat option"
  p_limit :: nat
  p_offset :: nat
  p_hasMore :: bool

record page_info =
  pg_page :: nat
  pg_limit :: nat
  pg_total :: nat
  pg_pages :: "nat option"

record jwt_payload =
  userId :: string
  email :: string
  exp :: nat

text \<open>A token is the payload signed with the secret (\<open>sign\<close> of hono/jwt).\<close>

datatype jwt = Signed jwt_payload string

text \<open>The columns the registration handler selects: every column but the password.\<close>

record user_selected =
  us_id :: string
  us_email :: string
  us_nom :: "string option"
  us_prenom :: "string option"
  us_dataInscription :: "string option"
  us_typesUtilisateur :: string
  us_createdAt :: nat
  us_updatedAt :: nat

record user_profile =
  up_id :: string
  up_email :: string
  up_nom :: "string option"
  up_prenom :: "string option"
  up_typesUtilisateur :: string

datatype payload =
    NoData
  | ClassesData "Classes list"
  | ClasseData Classes
  | ClasseSelected string string
  | MatieresData "Matieres list"
  | MatiereData Matieres
  | LeconsData "Lecons list"
  | LeconData Lecons
  | SousLeconsData "SousLecons list"
  | SousLeconData SousLecons
  | ExercicesData "Exercices list" page_info
  | ExercicesRows "Exercices list"
  | WithParent string string payload
  | ExerciceData Exercices
  | OptionData OptionsQCM
  | OptionsData "OptionsQCM list"
  | DeletedRelations nat nat
  | UserData user_selected
  | LoginData jwt user_profile
  | Thrown exn

text \<open>
  A response is the status and the JSON envelope passed to \<open>c.json\<close>; a key the handler
  does not write is \<open>None\<close>. Messages are written without their accents.
\<close>

record response =
  status :: nat
  success :: "bool option"
  error :: "string option"
  message :: "string option"
  data :: payload
  pagination :: "pagination option"

text \<open>\<open>c.json({ success: false, error }, st)\<close>\<close>

definition failure :: "nat \<Rightarrow> string \<Rightarrow> response" where
  "failure st msg =
     \<lparr>status = st, success = Some False, error = Some msg, message = None,
      data = NoData, pagination = None\<rparr>"

text \<open>\<open>c.json({ error }, st)\<close>\<close>

definition error_only :: "nat \<Rightarrow> string \<Rightarrow> response" where
  "error_only st msg =
     \<lparr>status = st, success = None, error = Some msg, message = None,
      data = NoData, pagination = None\<rparr>"

text \<open>\<open>c.json({ success: true, data, message }, st)\<close>\<close>

definition succeeded :: "nat \<Rightarrow> payload \<Rightarrow> string \<Rightarrow> response" where
  "succeeded st d msg =
     \<lparr>status = st, success = Some True, error = None, message = Some msg,
      data = d, pagination = None\<rparr>"

text \<open>\<open>c.json({ success: true, message })\<close>\<close>

definition done_message :: "string \<Rightarrow> response" where
  "done_message msg =
     \<lparr>status = 200, success = Some True, error = None, message = Some msg,
      data = NoData, pagination = None\<rparr>"

text \<open>\<open>c.json({ success: true, data, pagination: { total, limit, offset, hasMore } })\<close>\<close>

definition page :: "payload \<Rightarrow> nat \<Rightarrow> nat \<Rightarrow> nat \<Rightarrow> response" where
  "page d tot lim off =
     \<lparr>status = 200, success = Some True, error = None, message = None, data = d,
      pagination = Some \<lparr>p_total = Some tot, p_limit = lim, p_offset = off,
                          p_hasMore = (off + lim < tot)\<rparr>\<rparr>"

text \<open>
  The number of rows in the list a response carries. \<open>WithParent\<close> is the envelope
  \<open>{ parent: { id, nom, \<dots> }, rows }\<close> of the lists under a parent.
\<close>

fun payload_rows :: "payload \<Rightarrow> nat" where
  "payload_rows (ClassesData xs) = length xs"
| "payload_rows (MatieresData xs) = length xs"
| "payload_rows (LeconsData xs) = length xs"
| "payload_rows (SousLeconsData xs) = length xs"
| "payload_rows (ExercicesData xs info) = length xs"
| "payload_rows (ExercicesRows xs) = length xs"
| "payload_rows (OptionsData xs) = length xs"
| "payload_rows (WithParent parent_id parent_nom rows) = payload_rows rows"
| "payload_rows other = 0"

definition rows_returned :: "response \<Rightarrow> nat" where
  "rows_returned r = payload_rows (data r)"



text \<open>
  A handler is a \<open>try\<close> block whose \<open>catch\<close> answers with a fixed status and message;
  every modelled handler whose body raises has written nothing before, so the store
  of the caught case is the store the request started with.
\<close>

definition try_catch ::
  "(exn + response \<times> db) \<Rightarrow> (exn \<Rightarrow> response) \<Rightarrow> db \<Rightarrow> response \<times> db" where
  "try_catch body handler d = (case body of Inr r \<Rightarrow> r | Inl e \<Rightarrow> (handler e, d))"

text \<open>JavaScript truthiness of an optional string: present and not empty.\<close>

definition truthy :: "string option \<Rightarrow> bool" where
  "truthy s = (case s of None \<Rightarrow> False | Some v \<Rightarrow> v \<noteq> [])"

definition override :: "'a option \<Rightarrow> 'a \<Rightarrow> 'a" where
  "override new old = (case new of None \<Rightarrow> old | Some v \<Rightarrow> v)"

definition override_opt :: "'a option \<Rightarrow> 'a option \<Rightarrow> 'a option" where
  "override_opt new old = (case new of None \<Rightarrow> old | Some v \<Rightarrow> Some v)"

section \<open>Classes (ApiRoutes/classes.ts)\<close>

text \<open>
  The file holds two versions of the router. The first has \<open>GET /\<close>, \<open>POST /\<close>,
  \<open>PUT /:id\<close> and \<open>DELETE /:id\<close>; the second has \<open>GET /\<close> behind the
  authentication middleware, \<open>POST /new\<close>, \<open>PUT /:id/update\<close> and
  \<open>DELETE /:id/delete\<close>. The delete of the second version is the delete of the
  first behind the middleware, and its update differs from the first only where the class
  is missing (it then refers to a \<open>c\<close> that is not in scope); the model has the first
  version of both. The \<open>include\<close> option only attaches related rows to each returned
  row and is left out of the model, and so is the \<open>prisma.$disconnect()\<close> of the
  \<open>finally\<close> blocks, which touches no row.
\<close>

text \<open>
  \<open>GET /classes\<close>, first version. \<open>where\<close> is built from \<open>search\<close> but is passed
  to neither query, and \<open>Promise.all\<close> is given three entries (the page, the value of
  a \<open>console.log\<close> and the count), so that the destructured \<open>total\<close> is the
  \<open>undefined\<close> of \<open>console.log\<close> and \<open>offset + limit < total\<close> is false.
\<close>

definition classes_get_try ::
  "nat option \<Rightarrow> db \<Rightarrow> nat option \<Rightarrow> nat option \<Rightarrow> string option \<Rightarrow> exn + response \<times> db" where
  "classes_get_try fault d q_limit q_offset q_search =
     (let lim = (case q_limit of None \<Rightarrow> 50 | Some l \<Rightarrow> l);
          off = (case q_offset of None \<Rightarrow> 0 | Some v \<Rightarrow> v)
      in if fault = Some 0 then Inl StorageFailure
         else let rows = take lim (drop off (rev (sort_key c_createdAt (classes d))))
         in if fault = Some 1 then Inl StorageFailure
         else Inr (\<lparr>status = 200, success = Some True, error = None, message = None,
                    data = ClassesData rows,
                    pagination = Some \<lparr>p_total = None, p_limit = lim, p_offset = off,
                                        p_hasMore = False\<rparr>\<rparr>, d))"

definition classes_get ::
  "nat option \<Rightarrow> db \<Rightarrow> nat option \<Rightarrow> nat option \<Rightarrow> string option \<Rightarrow> response \<times> db" where
  "classes_get fault d q_limit q_offset q_search =
     try_catch (classes_get_try fault d q_limit q_offset q_search)
       (\<lambda>e. failure 500 ''Erreur serveur lors de la recuperation des classes'') d"

text \<open>
  \<open>GET /classes\<close>, second version: the filter is given to both queries. A non-empty
  \<open>search\<close> makes it a \<open>contains\<close> with \<open>mode: "insensitive"\<close>.
\<close>

definition classes_where :: "string option \<Rightarrow> Classes \<Rightarrow> bool" where
  "classes_where q_search r =
     (case q_search of
        None \<Rightarrow> True
      | Some s \<Rightarrow> (if s = [] then True else contains_insensitive (c_nom r) s))"

definition classes_get2_try ::
  "nat option \<Rightarrow> db \<Rightarrow> nat option \<Rightarrow> nat option \<Rightarrow> string option \<Rightarrow> exn + response \<times> db" where
  "classes_get2_try fault d q_limit q_offset q_search =
     (let lim = (case q_limit of None \<Rightarrow> 50 | Some l \<Rightarrow> l);
          off = (case q_offset of None \<Rightarrow> 0 | Some v \<Rightarrow> v)
      in if fault = Some 0 then Inl StorageFailure
         else if truthy q_search \<and> mode_refused then Inl ValidationError
         else let rows = take lim (drop off (rev (sort_key c_createdAt
                           (filter (classes_where q_search) (classes d)))))
         in if fault = Some 1 then Inl StorageFailure
         else let tot = length (filter (classes_where q_search) (classes d))
         in Inr (page (ClassesData rows) tot lim off, d))"

definition classes_get2 ::
  "nat option \<Rightarrow> db \<Rightarrow> nat option \<Rightarrow> nat option \<Rightarrow> string option \<Rightarrow> response \<times> db" where
  "classes_get2 fault d q_limit q_offset q_search =
     try_catch (classes_get2_try fault d q_limit q_offset q_search)
       (\<lambda>e. failure 500 ''Erreur serveur lors de la recuperation des classes'') d"

text \<open>
  \<open>POST /classes\<close>, first version: the name is looked up with \<open>equals\<close> and
  \<open>mode: "insensitive"\<close>.
\<close>

definition classes_create :: "env \<Rightarrow> string \<Rightarrow> Classes" where
  "classes_create en nom =
     \<lparr>c_id = cuid en 0, c_nom = nom, c_createdAt = now en, c_updatedAt = now en\<rparr>"

definition classes_post_try :: "nat option \<Rightarrow> env \<Rightarrow> db \<Rightarrow> string \<Rightarrow> exn + response \<times> db" where
  "classes_post_try fault en d nom =
     (if fault = Some 0 then Inl StorageFailure
      else if mode_refused then Inl ValidationError
      else case find (\<lambda>r. equals_insensitive (c_nom r) nom) (classes d) of
        Some existingClasse \<Rightarrow> Inr (failure 400 ''Une classe avec ce nom existe deja'', d)
      | None \<Rightarrow>
          if fault = Some 1 then Inl StorageFailure
          else let classe = classes_create en nom
               in Inr (succeeded 201 (ClasseData classe) ''Classe creee avec succes'',
                       d\<lparr>classes := classes d @ [classe]\<rparr>))"

definition classes_post :: "nat option \<Rightarrow> env \<Rightarrow> db \<Rightarrow> string \<Rightarrow> response \<times> db" where
  "classes_post fault en d nom =
     try_catch (classes_post_try fault en d nom)
       (\<lambda>e. failure 500 ''Erreur serveur lors de la creation de la classe'') d"

text \<open>
  \<open>POST /classes/new\<close>, second version: \<open>equals\<close> without a mode is exact equality,
  the created row is answered through \<open>select: { nom, id }\<close>, and the \<open>catch\<close> block
  sets the status with \<open>status(501)\<close> before answering \<open>{ status: "error", message: error }\<close>.
\<close>

definition classes_post_new_try ::
  "nat option \<Rightarrow> env \<Rightarrow> db \<Rightarrow> string \<Rightarrow> exn + response \<times> db" where
  "classes_post_new_try fault en d nom =
     (if fault = Some 0 then Inl StorageFailure
      else case find (\<lambda>r. c_nom r = nom) (classes d) of
        Some existingClasse \<Rightarrow> Inr (failure 400 ''Une classe avec ce nom existe deja'', d)
      | None \<Rightarrow>
          if fault = Some 1 then Inl StorageFailure
          else let classe = classes_create en nom
               in Inr (succeeded 201 (ClasseSelected (c_nom classe) (c_id classe))
                         ''Classe creee avec succes'',
                       d\<lparr>classes := classes d @ [classe]\<rparr>))"

definition classes_post_new :: "nat option \<Rightarrow> env \<Rightarrow> db \<Rightarrow> string \<Rightarrow> response \<times> db" where
  "classes_post_new fault en d nom =
     try_catch (classes_post_new_try fault en d nom)
       (\<lambda>e. \<lparr>status = 501, success = None, error = None, message = None,
              data = Thrown e, pagination = None\<rparr>) d"

text \<open>
  \<open>PUT /classes/:id\<close>. The payload's \<open>nom\<close> is optional; an empty string is falsy
  for \<open>data.nom && \<dots>\<close>. A name that differs from the current one is looked up with
  \<open>mode: "insensitive"\<close>. The update writes the given columns and \<open>updatedAt\<close>.
\<close>

definition classes_updated :: "env \<Rightarrow> string \<Rightarrow> string option \<Rightarrow> Classes list \<Rightarrow> Classes list" where
  "classes_updated en i nom rows =
     map (\<lambda>r. if c_id r = i
               then r\<lparr>c_nom := override nom (c_nom r), c_updatedAt := now en\<rparr>
               else r) rows"

definition classes_put_try ::
  "nat option \<Rightarrow> env \<Rightarrow> db \<Rightarrow> string \<Rightarrow> string option \<Rightarrow> exn + response \<times> db" where
  "classes_put_try fault en d i nom =
     (if i = [] then Inr (failure 400 ''ID de classe invalide'', d)
      else if fault = Some 0 then Inl StorageFailure
      else case find (\<lambda>r. c_id r = i) (classes d) of
        None \<Rightarrow> Inr (failure 404 ''Classe non trouvee'', d)
      | Some existingClasse \<Rightarrow>
          (let c1 = (truthy nom \<and> nom \<noteq> Some (c_nom existingClasse));
               k2 = (if c1 then 2 else 1)
           in if c1 \<and> fault = Some 1 then Inl StorageFailure
              else if c1 \<and> mode_refused then Inl ValidationError
              else if c1 \<and> find (\<lambda>r. equals_insensitive (c_nom r) (override nom []) \<and>
                                      c_id r \<noteq> i) (classes d) \<noteq> None
              then Inr (failure 400 ''Une classe avec ce nom existe deja'', d)
              else if fault = Some k2 then Inl StorageFailure
              else let rows = classes_updated en i nom (classes d)
                   in (case find (\<lambda>r. c_id r = i) rows of
                         None \<Rightarrow> Inl RecordNotFound
                       | Some classe \<Rightarrow>
                           Inr (succeeded 200 (ClasseData classe) ''Classe mise a jour avec succes'',
                                d\<lparr>classes := rows\<rparr>))))"

definition classes_put ::
  "nat option \<Rightarrow> env \<Rightarrow> db \<Rightarrow> string \<Rightarrow> string option \<Rightarrow> response \<times> db" where
  "classes_put fault en d i nom =
     try_catch (classes_put_try fault en d i nom)
       (\<lambda>e. failure 500 ''Erreur serveur lors de la mise a jour de la classe'') d"

text \<open>
  \<open>DELETE /classes/:id\<close>. The storage engine refuses to delete a class that a subject
  references (the relation is required) and clears \<open>classesId\<close> of the users of the
  class (the relation is optional).
\<close>

definition classes_delete_row :: "db \<Rightarrow> string \<Rightarrow> exn + db" where
  "classes_delete_row d i =
     (if list_ex (\<lambda>m. m_classesId m = i) (matieres d) then Inl ForeignKeyViolation
      else Inr (d\<lparr>classes := filter (\<lambda>r. c_id r \<noteq> i) (classes d),
                  user := map (\<lambda>u. if u_classesId u = Some i then u\<lparr>u_classesId := None\<rparr> else u)
                            (user d)\<rparr>))"

definition classes_delete_try :: "nat option \<Rightarrow> db \<Rightarrow> string \<Rightarrow> exn + response \<times> db" where
  "classes_delete_try fault d i =
     (if i = [] then Inr (failure 400 ''ID de classe invalide'', d)
      else if fault = Some 0 then Inl StorageFailure
      else case find (\<lambda>r. c_id r = i) (classes d) of
        None \<Rightarrow> Inr (failure 404 ''Classe non trouvee'', d)
      | Some existingClasse \<Rightarrow>
          if length (filter (\<lambda>m. m_classesId m = i) (matieres d)) > 0
          then Inr (failure 400
                 (''Impossible de supprimer la classe car elle contient '' @
                  show_nat (length (filter (\<lambda>m. m_classesId m = i) (matieres d))) @
                  '' matiere(s)''), d)
          else if fault = Some 1 then Inl StorageFailure
          else (case classes_delete_row d i of
                  Inl e \<Rightarrow> Inl e
                | Inr d' \<Rightarrow> Inr (done_message ''Classe supprimee avec succes'', d')))"

definition classes_delete :: "nat option \<Rightarrow> db \<Rightarrow> string \<Rightarrow> response \<times> db" where
  "classes_delete fault d i =
     try_catch (classes_delete_try fault d i)
       (\<lambda>e. failure 500 ''Erreur serveur lors de la suppression de la classe'') d"





section \<open>Matieres (the subjects router)\<close>

text \<open>
  The arguments of a handler are what \<open>c.req.valid\<close> returns: the payload the zod
  schema accepted. The handlers check the parents a write refers to before they write;
  the model's inserts and updates do not check them again.
\<close>

record createMatiere =
  cm_nom :: string
  cm_description :: "string option"
  cm_classesId :: string
  cm_pointsTotalMatiere :: "int option"
  cm_pointsSeuilMatiere :: "int option"

record updateMatiere =
  um_nom :: "string option"
  um_description :: "string option"
  um_classesId :: "string option"
  um_pointsTotalMatiere :: "int option"
  um_pointsSeuilMatiere :: "int option"




text \<open>
  \<open>POST /matieres\<close>: the class must exist, and the name is looked up in the class with
  \<open>nom: data.nom\<close>, which is exact equality.
\<close>

definition matieres_create :: "env \<Rightarrow> createMatiere \<Rightarrow> Matieres" where
  "matieres_create en dat =
     \<lparr>m_id = cuid en 0, m_nom = cm_nom dat, m_description = cm_description dat,
      m_classesId = cm_classesId dat, m_pointsTotalMatiere = cm_pointsTotalMatiere dat,
      m_pointsSeuilMatiere = cm_pointsSeuilMatiere dat,
      m_createdAt = now en, m_updatedAt = now en\<rparr>"

definition matieres_post_try ::
  "nat option \<Rightarrow> env \<Rightarrow> db \<Rightarrow> createMatiere \<Rightarrow> exn + response \<times> db" where
  "matieres_post_try fault en d dat =
     (if fault = Some 0 then Inl StorageFailure
      else case find (\<lambda>c. c_id c = cm_classesId dat) (classes d) of
        None \<Rightarrow> Inr (failure 400 ''La classe specifiee n'existe pas'', d)
      | Some classeExists \<Rightarrow>
          if fault = Some 1 then Inl StorageFailure
          else (case find (\<lambda>r. m_nom r = cm_nom dat \<and> m_classesId r = cm_classesId dat)
                       (matieres d) of
                  Some existingMatiere \<Rightarrow>
                    Inr (failure 400 ''Une matiere avec ce nom existe deja dans cette classe'', d)
                | None \<Rightarrow>
                    if fault = Some 2 then Inl StorageFailure
                    else let matiere = matieres_create en dat
                         in Inr (succeeded 201 (MatiereData matiere) ''Matiere creee avec succes'',
                                 d\<lparr>matieres := matieres d @ [matiere]\<rparr>)))"

definition matieres_post :: "nat option \<Rightarrow> env \<Rightarrow> db \<Rightarrow> createMatiere \<Rightarrow> response \<times> db" where
  "matieres_post fault en d dat =
     try_catch (matieres_post_try fault en d dat)
       (\<lambda>e. failure 500 ''Erreur serveur lors de la creation de la matiere'') d"

text \<open>
  \<open>PUT /matieres/:id\<close>: the class is looked up whenever \<open>data.classesId\<close> is given
  and not empty, the name whenever \<open>data.nom\<close> is given, in the class the subject will
  be in, by exact equality and leaving the subject itself out. The storage engine
  refuses an update that writes a \<open>classesId\<close> no class has (the foreign key of the
  migration), which the handler lets through when the given \<open>classesId\<close> is empty.
\<close>

definition matieres_updated :: "env \<Rightarrow> string \<Rightarrow> updateMatiere \<Rightarrow> Matieres list \<Rightarrow> Matieres list" where
  "matieres_updated en i dat rows =
     map (\<lambda>r. if m_id r = i
               then r\<lparr>m_nom := override (um_nom dat) (m_nom r),
                       m_description := override_opt (um_description dat) (m_description r),
                       m_classesId := override (um_classesId dat) (m_classesId r),
                       m_pointsTotalMatiere :=
                         override_opt (um_pointsTotalMatiere dat) (m_pointsTotalMatiere r),
                       m_pointsSeuilMatiere :=
                         override_opt (um_pointsSeuilMatiere dat) (m_pointsSeuilMatiere r),
                       m_updatedAt := now en\<rparr>
               else r) rows"

definition matieres_put_try ::
  "nat option \<Rightarrow> env \<Rightarrow> db \<Rightarrow> string \<Rightarrow> updateMatiere \<Rightarrow> exn + response \<times> db" where
  "matieres_put_try fault en d i dat =
     (if fault = Some 0 then Inl StorageFailure
      else case find (\<lambda>r. m_id r = i) (matieres d) of
        None \<Rightarrow> Inr (failure 404 ''Matiere non trouvee'', d)
      | Some existingMatiere \<Rightarrow>
          (let c1 = truthy (um_classesId dat);
               k2 = (if c1 then 2 else 1);
               c2 = truthy (um_nom dat);
               k3 = (if c2 then Suc k2 else k2);
               classesId = (if c1 then override (um_classesId dat) [] else m_classesId existingMatiere)
           in if c1 \<and> fault = Some 1 then Inl StorageFailure
              else if c1 \<and> find (\<lambda>c. Some (c_id c) = um_classesId dat) (classes d) = None
              then Inr (failure 400 ''La classe specifiee n'existe pas'', d)
              else if c2 \<and> fault = Some k2 then Inl StorageFailure
              else if c2 \<and> find (\<lambda>r. Some (m_nom r) = um_nom dat \<and> m_classesId r = classesId \<and>
                                      m_id r \<noteq> i) (matieres d) \<noteq> None
              then Inr (failure 400 ''Une matiere avec ce nom existe deja dans cette classe'', d)
              else if fault = Some k3 then Inl StorageFailure
              else if um_classesId dat \<noteq> None \<and>
                      find (\<lambda>c. Some (c_id c) = um_classesId dat) (classes d) = None
              then Inl ForeignKeyViolation
              else let rows = matieres_updated en i dat (matieres d)
                   in (case find (\<lambda>r. m_id r = i) rows of
                         None \<Rightarrow> Inl RecordNotFound
                       | Some matiere \<Rightarrow>
                           Inr (succeeded 200 (MatiereData matiere)
                                  ''Matiere mise a jour avec succes'',
                                d\<lparr>matieres := rows\<rparr>))))"

definition matieres_put ::
  "nat option \<Rightarrow> env \<Rightarrow> db \<Rightarrow> string \<Rightarrow> updateMatiere \<Rightarrow> response \<times> db" where
  "matieres_put fault en d i dat =
     try_catch (matieres_put_try fault en d i dat)
       (\<lambda>e. failure 500 ''Erreur serveur lors de la mise a jour de la matiere'') d"

text \<open>
  \<open>DELETE /matieres/:id\<close>. Lessons and exercises must keep their subject, so the
  storage engine refuses the delete while one of them references it.
\<close>

definition matieres_delete_row :: "db \<Rightarrow> string \<Rightarrow> exn + db" where
  "matieres_delete_row d i =
     (if list_ex (\<lambda>l. l_matieresId l = i) (lecons d) \<or>
         list_ex (\<lambda>e. e_matieresId e = i) (exercices d)
      then Inl ForeignKeyViolation
      else Inr (d\<lparr>matieres := filter (\<lambda>r. m_id r \<noteq> i) (matieres d)\<rparr>))"

definition matieres_delete_try :: "nat option \<Rightarrow> db \<Rightarrow> string \<Rightarrow> exn + response \<times> db" where
  "matieres_delete_try fault d i =
     (if fault = Some 0 then Inl StorageFailure
      else case find (\<lambda>r. m_id r = i) (matieres d) of
        None \<Rightarrow> Inr (failure 404 ''Matiere non trouvee'', d)
      | Some existingMatiere \<Rightarrow>
          if length (filter (\<lambda>l. l_matieresId l = i) (lecons d)) > 0 \<or>
             length (filter (\<lambda>e. e_matieresId e = i) (exercices d)) > 0
          then Inr (failure 400
                 ''Impossible de supprimer la matiere car elle contient des lecons ou des exercices'', d)
          else if fault = Some 1 then Inl StorageFailure
          else (case matieres_delete_row d i of
                  Inl e \<Rightarrow> Inl e
                | Inr d' \<Rightarrow> Inr (done_message ''Matiere supprimee avec succes'', d')))"

definition matieres_delete :: "nat option \<Rightarrow> db \<Rightarrow> string \<Rightarrow> response \<times> db" where
  "matieres_delete fault d i =
     try_catch (matieres_delete_try fault d i)
       (\<lambda>e. failure 500 ''Erreur serveur lors de la suppression de la matiere'') d"



section \<open>Lecons (the lessons router)\<close>

record createLecon =
  cl_nom :: string
  cl_description :: "string option"
  cl_matieresId :: string

record updateLecon =
  ul_nom :: "string option"
  ul_description :: "string option"
  ul_matieresId :: "string option"

datatype order_column = By_nom | By_createdAt | By_updatedAt

datatype direction = Asc | Desc

text \<open>
  The \<open>where\<close> of the lesson lists: \<open>search\<close> matches the name or the description
  (two \<open>contains\<close> with \<open>mode: "insensitive"\<close>), \<open>matieresId\<close> the parent; an empty
  string is no filter.
\<close>

definition lecons_where :: "string option \<Rightarrow> string option \<Rightarrow> Lecons \<Rightarrow> bool" where
  "lecons_where q_search q_matieresId r =
     ((case q_search of
         None \<Rightarrow> True
       | Some s \<Rightarrow> (if s = [] then True
                    else contains_insensitive (l_nom r) s \<or>
                         contains_insensitive_opt (l_description r) s)) \<and>
      (case q_matieresId of
         None \<Rightarrow> True
       | Some m \<Rightarrow> (if m = [] then True else l_matieresId r = m)))"

definition lecons_orderBy :: "order_column \<Rightarrow> direction \<Rightarrow> Lecons list \<Rightarrow> Lecons list" where
  "lecons_orderBy col dir rows =
     (let asc = (case col of
                   By_nom \<Rightarrow> sort_key l_nom rows
                 | By_createdAt \<Rightarrow> sort_key l_createdAt rows
                 | By_updatedAt \<Rightarrow> sort_key l_updatedAt rows)
      in case dir of Asc \<Rightarrow> asc | Desc \<Rightarrow> rev asc)"

definition lecons_get_try ::
  "nat option \<Rightarrow> db \<Rightarrow> nat option \<Rightarrow> nat option \<Rightarrow> string option \<Rightarrow> string option \<Rightarrow>
   order_column option \<Rightarrow> direction option \<Rightarrow> exn + response \<times> db" where
  "lecons_get_try fault d q_limit q_offset q_search q_matieresId q_orderBy q_order =
     (let lim = (case q_limit of None \<Rightarrow> 50 | Some l \<Rightarrow> l);
          off = (case q_offset of None \<Rightarrow> 0 | Some v \<Rightarrow> v);
          col = (case q_orderBy of None \<Rightarrow> By_createdAt | Some c \<Rightarrow> c);
          dir = (case q_order of None \<Rightarrow> Desc | Some v \<Rightarrow> v)
      in if fault = Some 0 then Inl StorageFailure
         else if truthy q_search \<and> mode_refused then Inl ValidationError
         else let rows = take lim (drop off (lecons_orderBy col dir
                           (filter (lecons_where q_search q_matieresId) (lecons d))))
         in if fault = Some 1 then Inl StorageFailure
         else let tot = length (filter (lecons_where q_search q_matieresId) (lecons d))
         in Inr (page (LeconsData rows) tot lim off, d))"

definition lecons_get ::
  "nat option \<Rightarrow> db \<Rightarrow> nat option \<Rightarrow> nat option \<Rightarrow> string option \<Rightarrow> string option \<Rightarrow>
   order_column option \<Rightarrow> direction option \<Rightarrow> response \<times> db" where
  "lecons_get fault d q_limit q_offset q_search q_matieresId q_orderBy q_order =
     try_catch (lecons_get_try fault d q_limit q_offset q_search q_matieresId q_orderBy q_order)
       (\<lambda>e. failure 500 ''Erreur serveur lors de la recuperation des lecons'') d"

text \<open>
  \<open>POST /lecons/new\<close>: the subject must exist, and the name is looked up in the subject
  with \<open>equals\<close> and \<open>mode: "insensitive"\<close>.
\<close>

definition lecons_create :: "env \<Rightarrow> createLecon \<Rightarrow> Lecons" where
  "lecons_create en dat =
     \<lparr>l_id = cuid en 0, l_nom = cl_nom dat, l_description = cl_description dat,
      l_matieresId = cl_matieresId dat, l_createdAt = now en, l_updatedAt = now en\<rparr>"

definition lecons_post_try ::
  "nat option \<Rightarrow> env \<Rightarrow> db \<Rightarrow> createLecon \<Rightarrow> exn + response \<times> db" where
  "lecons_post_try fault en d dat =
     (if fault = Some 0 then Inl StorageFailure
      else case find (\<lambda>m. m_id m = cl_matieresId dat) (matieres d) of
        None \<Rightarrow> Inr (failure 400 ''La matiere specifiee n'existe pas'', d)
      | Some matiereExists \<Rightarrow>
          if fault = Some 1 then Inl StorageFailure
          else if mode_refused then Inl ValidationError
          else (case find (\<lambda>r. equals_insensitive (l_nom r) (cl_nom dat) \<and>
                                l_matieresId r = cl_matieresId dat) (lecons d) of
                  Some existingLecon \<Rightarrow>
                    Inr (failure 400 ''Une lecon avec ce nom existe deja dans cette matiere'', d)
                | None \<Rightarrow>
                    if fault = Some 2 then Inl StorageFailure
                    else let lecon = lecons_create en dat
                         in Inr (succeeded 201 (LeconData lecon) ''Lecon creee avec succes'',
                                 d\<lparr>lecons := lecons d @ [lecon]\<rparr>)))"

definition lecons_post :: "nat option \<Rightarrow> env \<Rightarrow> db \<Rightarrow> createLecon \<Rightarrow> response \<times> db" where
  "lecons_post fault en d dat =
     try_catch (lecons_post_try fault en d dat)
       (\<lambda>e. failure 500 ''Erreur serveur lors de la creation de la lecon'') d"

text \<open>
  \<open>PUT /lecons/lecons/:id\<close>: the subject is looked up when it is given and differs
  from the current one, the name (with \<open>mode: "insensitive"\<close>) when it is given and
  differs from the current one. The storage engine refuses an update that writes a
  \<open>matieresId\<close> no subject has.
\<close>

definition lecons_updated :: "env \<Rightarrow> string \<Rightarrow> updateLecon \<Rightarrow> Lecons list \<Rightarrow> Lecons list" where
  "lecons_updated en i dat rows =
     map (\<lambda>r. if l_id r = i
               then r\<lparr>l_nom := override (ul_nom dat) (l_nom r),
                       l_description := override_opt (ul_description dat) (l_description r),
                       l_matieresId := override (ul_matieresId dat) (l_matieresId r),
                       l_updatedAt := now en\<rparr>
               else r) rows"

definition lecons_put_try ::
  "nat option \<Rightarrow> env \<Rightarrow> db \<Rightarrow> string \<Rightarrow> updateLecon \<Rightarrow> exn + response \<times> db" where
  "lecons_put_try fault en d i dat =
     (if i = [] then Inr (failure 400 ''ID de lecon invalide'', d)
      else if fault = Some 0 then Inl StorageFailure
      else case find (\<lambda>r. l_id r = i) (lecons d) of
        None \<Rightarrow> Inr (failure 404 ''Lecon non trouvee'', d)
      | Some existingLecon \<Rightarrow>
          (let c1 = (truthy (ul_matieresId dat) \<and>
                     ul_matieresId dat \<noteq> Some (l_matieresId existingLecon));
               k2 = (if c1 then 2 else 1);
               c2 = (truthy (ul_nom dat) \<and> ul_nom dat \<noteq> Some (l_nom existingLecon));
               k3 = (if c2 then Suc k2 else k2);
               matieresId = (if truthy (ul_matieresId dat) then override (ul_matieresId dat) []
                             else l_matieresId existingLecon)
           in if c1 \<and> fault = Some 1 then Inl StorageFailure
              else if c1 \<and> find (\<lambda>m. Some (m_id m) = ul_matieresId dat) (matieres d) = None
              then Inr (failure 400 ''La matiere specifiee n'existe pas'', d)
              else if c2 \<and> fault = Some k2 then Inl StorageFailure
              else if c2 \<and> mode_refused then Inl ValidationError
              else if c2 \<and> find (\<lambda>r. equals_insensitive (l_nom r) (override (ul_nom dat) []) \<and>
                                      l_matieresId r = matieresId \<and> l_id r \<noteq> i) (lecons d) \<noteq> None
              then Inr (failure 400 ''Une lecon avec ce nom existe deja dans cette matiere'', d)
              else if fault = Some k3 then Inl StorageFailure
              else if ul_matieresId dat \<noteq> None \<and>
                      find (\<lambda>m. Some (m_id m) = ul_matieresId dat) (matieres d) = None
              then Inl ForeignKeyViolation
              else let rows = lecons_updated en i dat (lecons d)
                   in (case find (\<lambda>r. l_id r = i) rows of
                         None \<Rightarrow> Inl RecordNotFound
                       | Some lecon \<Rightarrow>
                           Inr (succeeded 200 (LeconData lecon) ''Lecon mise a jour avec succes'',
                                d\<lparr>lecons := rows\<rparr>))))"

definition lecons_put ::
  "nat option \<Rightarrow> env \<Rightarrow> db \<Rightarrow> string \<Rightarrow> updateLecon \<Rightarrow> response \<times> db" where
  "lecons_put fault en d i dat =
     try_catch (lecons_put_try fault en d i dat)
       (\<lambda>e. failure 500 ''Erreur serveur lors de la mise a jour de la lecon'') d"

text \<open>
  \<open>DELETE /lecons/lecons/:id\<close>. Sub-lessons and user links must keep their lesson;
  an exercise may lose it (\<open>ON DELETE SET NULL\<close>).
\<close>

definition lecons_delete_row :: "db \<Rightarrow> string \<Rightarrow> exn + db" where
  "lecons_delete_row d i =
     (if list_ex (\<lambda>s. s_leconsId s = i) (sousLecons d) \<or>
         list_ex (\<lambda>u. lu_leconsId u = i) (leconsUtilisateur d)
      then Inl ForeignKeyViolation
      else Inr (d\<lparr>lecons := filter (\<lambda>r. l_id r \<noteq> i) (lecons d),
                  exercices := map (\<lambda>e. if e_leconId e = Some i then e\<lparr>e_leconId := None\<rparr> else e)
                                 (exercices d)\<rparr>))"

definition lecons_delete_try :: "nat option \<Rightarrow> db \<Rightarrow> string \<Rightarrow> exn + response \<times> db" where
  "lecons_delete_try fault d i =
     (if i = [] then Inr (failure 400 ''ID de lecon invalide'', d)
      else if fault = Some 0 then Inl StorageFailure
      else case find (\<lambda>r. l_id r = i) (lecons d) of
        None \<Rightarrow> Inr (failure 404 ''Lecon non trouvee'', d)
      | Some existingLecon \<Rightarrow>
          (let hasRelatedData =
                 (length (filter (\<lambda>s. s_leconsId s = i) (sousLecons d)) > 0 \<or>
                  length (filter (\<lambda>e. e_leconId e = Some i) (exercices d)) > 0 \<or>
                  length (filter (\<lambda>u. lu_leconsId u = i) (leconsUtilisateur d)) > 0)
           in if hasRelatedData
              then Inr (failure 400
                     ''Impossible de supprimer la lecon car elle contient des sous-lecons, exercices ou est utilisee par des utilisateurs'', d)
              else if fault = Some 1 then Inl StorageFailure
              else (case lecons_delete_row d i of
                      Inl e \<Rightarrow> Inl e
                    | Inr d' \<Rightarrow> Inr (done_message ''Lecon supprimee avec succes'', d'))))"

definition lecons_delete :: "nat option \<Rightarrow> db \<Rightarrow> string \<Rightarrow> response \<times> db" where
  "lecons_delete fault d i =
     try_catch (lecons_delete_try fault d i)
       (\<lambda>e. failure 500 ''Erreur serveur lors de la suppression de la lecon'') d"







section \<open>SousLecons (the sub-lessons router)\<close>

record createSousLecon =
  cs_nom :: string
  cs_description :: "string option"
  cs_leconsId :: string

record updateSousLecon =
  usl_nom :: "string option"
  usl_description :: "string option"
  usl_leconsId :: "string option"

definition sousLecons_where :: "string option \<Rightarrow> string option \<Rightarrow> SousLecons \<Rightarrow> bool" where
  "sousLecons_where q_search q_leconsId r =
     ((case q_search of
         None \<Rightarrow> True
       | Some s \<Rightarrow> (if s = [] then True
                    else contains_insensitive (s_nom r) s \<or>
                         contains_insensitive_opt (s_description r) s)) \<and>
      (case q_leconsId of
         None \<Rightarrow> True
       | Some l \<Rightarrow> (if l = [] then True else s_leconsId r = l)))"

definition sousLecons_orderBy ::
  "order_column \<Rightarrow> direction \<Rightarrow> SousLecons list \<Rightarrow> SousLecons list" where
  "sousLecons_orderBy col dir rows =
     (let asc = (case col of
                   By_nom \<Rightarrow> sort_key s_nom rows
                 | By_createdAt \<Rightarrow> sort_key s_createdAt rows
                 | By_updatedAt \<Rightarrow> sort_key s_updatedAt rows)
      in case dir of Asc \<Rightarrow> asc | Desc \<Rightarrow> rev asc)"

definition sousLecons_get_try ::
  "nat option \<Rightarrow> db \<Rightarrow> nat option \<Rightarrow> nat option \<Rightarrow> string option \<Rightarrow> string option \<Rightarrow>
   order_column option \<Rightarrow> direction option \<Rightarrow> exn + response \<times> db" where
  "sousLecons_get_try fault d q_limit q_offset q_search q_leconsId q_orderBy q_order =
     (let lim = (case q_limit of None \<Rightarrow> 50 | Some l \<Rightarrow> l);
          off = (case q_offset of None \<Rightarrow> 0 | Some v \<Rightarrow> v);
          col = (case q_orderBy of None \<Rightarrow> By_createdAt | Some c \<Rightarrow> c);
          dir = (case q_order of None \<Rightarrow> Asc | Some v \<Rightarrow> v)
      in if fault = Some 0 then Inl StorageFailure
         else if truthy q_search \<and> mode_refused then Inl ValidationError
         else let rows = take lim (drop off (sousLecons_orderBy col dir
                           (filter (sousLecons_where q_search q_leconsId) (sousLecons d))))
         in if fault = Some 1 then Inl StorageFailure
         else let tot = length (filter (sousLecons_where q_search q_leconsId) (sousLecons d))
         in Inr (page (SousLeconsData rows) tot lim off, d))"

definition sousLecons_get ::
  "nat option \<Rightarrow> db \<Rightarrow> nat option \<Rightarrow> nat option \<Rightarrow> string option \<Rightarrow> string option \<Rightarrow>
   order_column option \<Rightarrow> direction option \<Rightarrow> response \<times> db" where
  "sousLecons_get fault d q_limit q_offset q_search q_leconsId q_orderBy q_order =
     try_catch
       (sousLecons_get_try fault d q_limit q_offset q_search q_leconsId q_orderBy q_order)
       (\<lambda>e. failure 500 ''Erreur serveur lors de la recuperation des sous-lecons'') d"

text \<open>
  \<open>POST /souslecons/new\<close>: the lesson must exist, and the name is looked up in the
  lesson with \<open>equals\<close> and \<open>mode: "insensitive"\<close>.
\<close>

definition sousLecons_create :: "env \<Rightarrow> createSousLecon \<Rightarrow> SousLecons" where
  "sousLecons_create en dat =
     \<lparr>s_id = cuid en 0, s_nom = cs_nom dat, s_description = cs_description dat,
      s_leconsId = cs_leconsId dat, s_createdAt = now en, s_updatedAt = now en\<rparr>"

definition sousLecons_post_try ::
  "nat option \<Rightarrow> env \<Rightarrow> db \<Rightarrow> createSousLecon \<Rightarrow> exn + response \<times> db" where
  "sousLecons_post_try fault en d dat =
     (if fault = Some 0 then Inl StorageFailure
      else case find (\<lambda>l. l_id l = cs_leconsId dat) (lecons d) of
        None \<Rightarrow> Inr (failure 400 ''La lecon specifiee n'existe pas'', d)
      | Some leconExists \<Rightarrow>
          if fault = Some 1 then Inl StorageFailure
          else if mode_refused then Inl ValidationError
          else (case find (\<lambda>r. equals_insensitive (s_nom r) (cs_nom dat) \<and>
                                s_leconsId r = cs_leconsId dat) (sousLecons d) of
                  Some existingSousLecon \<Rightarrow>
                    Inr (failure 400 ''Une sous-lecon avec ce nom existe deja dans cette lecon'', d)
                | None \<Rightarrow>
                    if fault = Some 2 then Inl StorageFailure
                    else let sousLecon = sousLecons_create en dat
                         in Inr (succeeded 201 (SousLeconData sousLecon)
                                   ''Sous-lecon creee avec succes'',
                                 d\<lparr>sousLecons := sousLecons d @ [sousLecon]\<rparr>)))"

definition sousLecons_post ::
  "nat option \<Rightarrow> env \<Rightarrow> db \<Rightarrow> createSousLecon \<Rightarrow> response \<times> db" where
  "sousLecons_post fault en d dat =
     try_catch (sousLecons_post_try fault en d dat)
       (\<lambda>e. failure 500 ''Erreur serveur lors de la creation de la sous-lecon'') d"

text \<open>
  \<open>PUT /souslecons/:id\<close>: as for a lesson, with the lesson as the parent.
\<close>

definition sousLecons_updated ::
  "env \<Rightarrow> string \<Rightarrow> updateSousLecon \<Rightarrow> SousLecons list \<Rightarrow> SousLecons list" where
  "sousLecons_updated en i dat rows =
     map (\<lambda>r. if s_id r = i
               then r\<lparr>s_nom := override (usl_nom dat) (s_nom r),
                       s_description := override_opt (usl_description dat) (s_description r),
                       s_leconsId := override (usl_leconsId dat) (s_leconsId r),
                       s_updatedAt := now en\<rparr>
               else r) rows"

definition sousLecons_put_try ::
  "nat option \<Rightarrow> env \<Rightarrow> db \<Rightarrow> string \<Rightarrow> updateSousLecon \<Rightarrow> exn + response \<times> db" where
  "sousLecons_put_try fault en d i dat =
     (if i = [] then Inr (failure 400 ''ID de sous-lecon invalide'', d)
      else if fault = Some 0 then Inl StorageFailure
      else case find (\<lambda>r. s_id r = i) (sousLecons d) of
        None \<Rightarrow> Inr (failure 404 ''Sous-lecon non trouvee'', d)
      | Some existingSousLecon \<Rightarrow>
          (let c1 = (truthy (usl_leconsId dat) \<and>
                     usl_leconsId dat \<noteq> Some (s_leconsId existingSousLecon));
               k2 = (if c1 then 2 else 1);
               c2 = (truthy (usl_nom dat) \<and> usl_nom dat \<noteq> Some (s_nom existingSousLecon));
               k3 = (if c2 then Suc k2 else k2);
               leconsId = (if truthy (usl_leconsId dat) then override (usl_leconsId dat) []
                           else s_leconsId existingSousLecon)
           in if c1 \<and> fault = Some 1 then Inl StorageFailure
              else if c1 \<and> find (\<lambda>l. Some (l_id l) = usl_leconsId dat) (lecons d) = None
              then Inr (failure 400 ''La lecon specifiee n'existe pas'', d)
              else if c2 \<and> fault = Some k2 then Inl StorageFailure
              else if c2 \<and> mode_refused then Inl ValidationError
              else if c2 \<and> find (\<lambda>r. equals_insensitive (s_nom r) (override (usl_nom dat) []) \<and>
                                      s_leconsId r = leconsId \<and> s_id r \<noteq> i) (sousLecons d) \<noteq> None
              then Inr (failure 400 ''Une sous-lecon avec ce nom existe deja dans cette lecon'', d)
              else if fault = Some k3 then Inl StorageFailure
              else if usl_leconsId dat \<noteq> None \<and>
                      find (\<lambda>l. Some (l_id l) = usl_leconsId dat) (lecons d) = None
              then Inl ForeignKeyViolation
              else let rows = sousLecons_updated en i dat (sousLecons d)
                   in (case find (\<lambda>r. s_id r = i) rows of
                         None \<Rightarrow> Inl RecordNotFound
                       | Some sousLecon \<Rightarrow>
                           Inr (succeeded 200 (SousLeconData sousLecon)
                                  ''Sous-lecon mise a jour avec succes'',
                                d\<lparr>sousLecons := rows\<rparr>))))"

definition sousLecons_put ::
  "nat option \<Rightarrow> env \<Rightarrow> db \<Rightarrow> string \<Rightarrow> updateSousLecon \<Rightarrow> response \<times> db" where
  "sousLecons_put fault en d i dat =
     try_catch (sousLecons_put_try fault en d i dat)
       (\<lambda>e. failure 500 ''Erreur serveur lors de la mise a jour de la sous-lecon'') d"

text \<open>\<open>DELETE /souslecons/:id\<close>. An exercise may lose its sub-lesson.\<close>

definition sousLecons_delete_row :: "db \<Rightarrow> string \<Rightarrow> exn + db" where
  "sousLecons_delete_row d i =
     Inr (d\<lparr>sousLecons := filter (\<lambda>r. s_id r \<noteq> i) (sousLecons d),
             exercices := map (\<lambda>e. if e_sousLeconsId e = Some i then e\<lparr>e_sousLeconsId := None\<rparr>
                                    else e) (exercices d)\<rparr>)"

definition sousLecons_delete_try :: "nat option \<Rightarrow> db \<Rightarrow> string \<Rightarrow> exn + response \<times> db" where
  "sousLecons_delete_try fault d i =
     (if i = [] then Inr (failure 400 ''ID de sous-lecon invalide'', d)
      else if fault = Some 0 then Inl StorageFailure
      else case find (\<lambda>r. s_id r = i) (sousLecons d) of
        None \<Rightarrow> Inr (failure 404 ''Sous-lecon non trouvee'', d)
      | Some existingSousLecon \<Rightarrow>
          if length (filter (\<lambda>e. e_sousLeconsId e = Some i) (exercices d)) > 0
          then Inr (failure 400
                 (''Impossible de supprimer la sous-lecon car elle contient '' @
                  show_nat (length (filter (\<lambda>e. e_sousLeconsId e = Some i) (exercices d))) @
                  '' exercice(s)''), d)
          else if fault = Some 1 then Inl StorageFailure
          else (case sousLecons_delete_row d i of
                  Inl e \<Rightarrow> Inl e
                | Inr d' \<Rightarrow> Inr (done_message ''Sous-lecon supprimee avec succes'', d')))"

definition sousLecons_delete :: "nat option \<Rightarrow> db \<Rightarrow> string \<Rightarrow> response \<times> db" where
  "sousLecons_delete fault d i =
     try_catch (sousLecons_delete_try fault d i)
       (\<lambda>e. failure 500 ''Erreur serveur lors de la suppression de la sous-lecon'') d"

text \<open>
  The exercises of a sub-lesson, \<open>GET /souslecons/:id/exercices\<close>, and the
  sub-lessons of a lesson, \<open>GET /souslecons/lecons/:leconsId/souslecons\<close>.
\<close>

definition exercices_orderBy ::
  "order_column \<Rightarrow> direction \<Rightarrow> Exercices list \<Rightarrow> Exercices list" where
  "exercices_orderBy col dir rows =
     (let asc = (case col of
                   By_nom \<Rightarrow> sort_key e_nom rows
                 | By_createdAt \<Rightarrow> sort_key e_createdAt rows
                 | By_updatedAt \<Rightarrow> sort_key e_updatedAt rows)
      in case dir of Asc \<Rightarrow> asc | Desc \<Rightarrow> rev asc)"





section \<open>Exercices and OptionsQCM (the exercises router)\<close>

record createExercice =
  ce_nom :: string
  ce_description :: "string option"
  ce_matieresId :: string
  ce_sousLeconsId :: "string option"
  ce_leconId :: "string option"
  ce_typesExercice :: string

text \<open>
  In the update payload \<open>sousLeconsId\<close> and \<open>leconId\<close> are optional and nullable:
  \<open>None\<close> is an absent key, \<open>Some None\<close> is \<open>null\<close>.
\<close>

record updateExercice =
  ue_nom :: "string option"
  ue_description :: "string option"
  ue_matieresId :: "string option"
  ue_sousLeconsId :: "string option option"
  ue_leconId :: "string option option"
  ue_typesExercice :: "string option"

definition truthy_nullable :: "string option option \<Rightarrow> bool" where
  "truthy_nullable s = (case s of None \<Rightarrow> False | Some v \<Rightarrow> truthy v)"

text \<open>
  The zod schemas of this router ask identifiers to be of cuid shape (a \<open>c\<close> or
  \<open>C\<close> followed by at least eight characters that are neither white space nor a
  hyphen, up to the end; a character is a code point below 256), names
  not to be empty, points not to be negative and \<open>typesExercice\<close> to be in the
  schema's own list. The validator answers a body its schema refuses with 400 before
  the handler runs; for this router the model has it, as the condition under which the
  handler is entered. The payload records are bodies with the defaults of the schema
  filled in (\<open>typesExercice\<close> QCM, \<open>isCorrect\<close> and \<open>isSelected\<close> false).
\<close>

definition whitespace :: "char list" where
  "whitespace = [CHR 0x09, CHR 0x0A, CHR 0x0B, CHR 0x0C, CHR 0x0D, CHR '' '', CHR 0xA0]"

definition is_cuid :: "string \<Rightarrow> bool" where
  "is_cuid s =
     (case s of
        [] \<Rightarrow> False
      | c # rest \<Rightarrow>
          (c = CHR ''c'' \<or> c = CHR ''C'') \<and> 8 \<le> length rest \<and>
          list_all (\<lambda>x. x \<notin> set (CHR ''-'' # whitespace)) rest)"

definition is_cuid_opt :: "string option \<Rightarrow> bool" where
  "is_cuid_opt s = (case s of None \<Rightarrow> True | Some v \<Rightarrow> is_cuid v)"

definition is_cuid_nullable :: "string option option \<Rightarrow> bool" where
  "is_cuid_nullable s = (case s of None \<Rightarrow> True | Some v \<Rightarrow> is_cuid_opt v)"

definition points_ok :: "int option \<Rightarrow> bool" where
  "points_ok p = (case p of None \<Rightarrow> True | Some v \<Rightarrow> 0 \<le> v)"

definition createExerciceSchema :: "createExercice \<Rightarrow> bool" where
  "createExerciceSchema dat =
     (ce_nom dat \<noteq> [] \<and> is_cuid (ce_matieresId dat) \<and> is_cuid_opt (ce_sousLeconsId dat) \<and>
      is_cuid_opt (ce_leconId dat) \<and>
      ce_typesExercice dat \<in> set [''QCM'', ''VRAI_FAUX'', ''COMPLETION'', ''REDACTION''])"

definition updateExerciceSchema :: "updateExercice \<Rightarrow> bool" where
  "updateExerciceSchema dat =
     (ue_nom dat \<noteq> Some [] \<and> is_cuid_opt (ue_matieresId dat) \<and>
      is_cuid_nullable (ue_sousLeconsId dat) \<and> is_cuid_nullable (ue_leconId dat) \<and>
      (case ue_typesExercice dat of
         None \<Rightarrow> True
       | Some t \<Rightarrow> t \<in> set [''QCM'', ''VRAI_FAUX'', ''COMPLETION'']))"

text \<open>\<open>c.json({ success: false, error }, 400)\<close> of the validator, \<open>error\<close> being the ZodError.\<close>

definition validation_failed :: response where
  "validation_failed =
     \<lparr>status = 400, success = Some False, error = Some ''ZodError'', message = None,
      data = NoData, pagination = None\<rparr>"

text \<open>The error envelope of this router is \<open>{ error }\<close>, its success envelope \<open>{ message, \<dots> }\<close>.\<close>

definition answered :: "nat \<Rightarrow> string \<Rightarrow> payload \<Rightarrow> response" where
  "answered st msg d =
     \<lparr>status = st, success = None, error = None, message = Some msg,
      data = d, pagination = None\<rparr>"

text \<open>
  \<open>POST /exercices\<close>: the subject, and the sub-lesson and the lesson when they are
  given, are looked up; a missing one is answered with 404. The create is refused by the
  client when \<open>typesExercice\<close> is not in the enumeration of the Prisma schema.
\<close>

definition exercices_create :: "env \<Rightarrow> createExercice \<Rightarrow> Exercices" where
  "exercices_create en dat =
     \<lparr>e_id = cuid en 0, e_nom = ce_nom dat, e_description = ce_description dat,
      e_matieresId = ce_matieresId dat, e_sousLeconsId = ce_sousLeconsId dat,
      e_leconId = ce_leconId dat, e_typesExercice = ce_typesExercice dat,
      e_createdAt = now en, e_updatedAt = now en\<rparr>"

definition exercices_post_try ::
  "nat option \<Rightarrow> env \<Rightarrow> db \<Rightarrow> createExercice \<Rightarrow> exn + response \<times> db" where
  "exercices_post_try fault en d dat =
     (if fault = Some 0 then Inl StorageFailure
      else case find (\<lambda>m. m_id m = ce_matieresId dat) (matieres d) of
        None \<Rightarrow> Inr (error_only 404 ''Matiere non trouvee'', d)
      | Some matiere \<Rightarrow>
          (let c1 = truthy (ce_sousLeconsId dat);
               k2 = (if c1 then 2 else 1);
               c2 = truthy (ce_leconId dat);
               k3 = (if c2 then Suc k2 else k2)
           in if c1 \<and> fault = Some 1 then Inl StorageFailure
              else if c1 \<and> find (\<lambda>s. Some (s_id s) = ce_sousLeconsId dat) (sousLecons d) = None
              then Inr (error_only 404 ''Sous-lecon non trouvee'', d)
              else if c2 \<and> fault = Some k2 then Inl StorageFailure
              else if c2 \<and> find (\<lambda>l. Some (l_id l) = ce_leconId dat) (lecons d) = None
              then Inr (error_only 404 ''Lecon non trouvee'', d)
              else if fault = Some k3 then Inl StorageFailure
              else if ce_typesExercice dat \<notin> set TypesExercice then Inl ValidationError
              else let exercice = exercices_create en dat
                   in Inr (answered 201 ''Exercice cree avec succes'' (ExerciceData exercice),
                           d\<lparr>exercices := exercices d @ [exercice]\<rparr>)))"

definition exercices_post ::
  "nat option \<Rightarrow> env \<Rightarrow> db \<Rightarrow> createExercice \<Rightarrow> response \<times> db" where
  "exercices_post fault en d dat =
     (if createExerciceSchema dat
      then try_catch (exercices_post_try fault en d dat) (\<lambda>e. error_only 500 ''Erreur serveur'') d
      else (validation_failed, d))"

text \<open>
  \<open>GET /exercices\<close> is paged by \<open>page\<close> and \<open>limit\<close> (defaults 1 and 10) and reads
  no \<open>offset\<close>; it answers \<open>{ exercices, pagination: { page, limit, total, pages } }\<close>.
  The query values are modelled for digit strings. The storage client refuses a negative
  \<open>skip\<close> (page 0), a non-empty \<open>search\<close> (two \<open>contains\<close> with
  \<open>mode: "insensitive"\<close>) and a \<open>typesExercice\<close> that is not in the enumeration;
  \<open>pages\<close> is not a number when \<open>limit\<close> is 0.
\<close>

definition exercices_where ::
  "string option \<Rightarrow> string option \<Rightarrow> string option \<Rightarrow> string option \<Rightarrow> string option \<Rightarrow>
   Exercices \<Rightarrow> bool" where
  "exercices_where q_search q_matieresId q_leconId q_sousLeconsId q_typesExercice r =
     ((if truthy q_search
       then contains_insensitive (e_nom r) (override q_search []) \<or>
            contains_insensitive_opt (e_description r) (override q_search [])
       else True) \<and>
      (if truthy q_matieresId then Some (e_matieresId r) = q_matieresId else True) \<and>
      (if truthy q_leconId then e_leconId r = q_leconId else True) \<and>
      (if truthy q_sousLeconsId then e_sousLeconsId r = q_sousLeconsId else True) \<and>
      (if truthy q_typesExercice then Some (e_typesExercice r) = q_typesExercice else True))"

definition exercices_get_try ::
  "nat option \<Rightarrow> db \<Rightarrow> nat option \<Rightarrow> nat option \<Rightarrow> string option \<Rightarrow> string option \<Rightarrow>
   string option \<Rightarrow> string option \<Rightarrow> string option \<Rightarrow> exn + response \<times> db" where
  "exercices_get_try fault d q_page q_limit q_search q_matieresId q_leconId q_sousLeconsId
       q_typesExercice =
     (let pg = (case q_page of None \<Rightarrow> 1 | Some p \<Rightarrow> p);
          lim = (case q_limit of None \<Rightarrow> 10 | Some l \<Rightarrow> l);
          wh = exercices_where q_search q_matieresId q_leconId q_sousLeconsId q_typesExercice
      in if fault = Some 0 then Inl StorageFailure
         else if pg = 0 \<and> 0 < lim then Inl ValidationError
         else if truthy q_search \<and> mode_refused then Inl ValidationError
         else if truthy q_typesExercice \<and> override q_typesExercice [] \<notin> set TypesExercice
         then Inl ValidationError
         else let rows = take lim (drop ((pg - 1) * lim)
                           (rev (sort_key e_createdAt (filter wh (exercices d)))))
         in if fault = Some 1 then Inl StorageFailure
         else let tot = length (filter wh (exercices d))
         in Inr (\<lparr>status = 200, success = None, error = None, message = None,
                  data = ExercicesData rows
                    \<lparr>pg_page = pg, pg_limit = lim, pg_total = tot,
                     pg_pages = (if lim = 0 then None else Some ((tot + lim - 1) div lim))\<rparr>,
                  pagination = None\<rparr>, d))"

definition exercices_get ::
  "nat option \<Rightarrow> db \<Rightarrow> nat option \<Rightarrow> nat option \<Rightarrow> string option \<Rightarrow> string option \<Rightarrow>
   string option \<Rightarrow> string option \<Rightarrow> string option \<Rightarrow> response \<times> db" where
  "exercices_get fault d q_page q_limit q_search q_matieresId q_leconId q_sousLeconsId
       q_typesExercice =
     try_catch (exercices_get_try fault d q_page q_limit q_search q_matieresId q_leconId
                  q_sousLeconsId q_typesExercice)
       (\<lambda>e. error_only 500 ''Erreur serveur'') d"

text \<open>
  \<open>PUT /exercices/:id\<close>: the exercise, then the references the payload gives, are
  looked up, each answered 404 when missing; the update is refused by the client when
  the given \<open>typesExercice\<close> is not in the enumeration of the Prisma schema.
\<close>

definition exercices_updated ::
  "env \<Rightarrow> string \<Rightarrow> updateExercice \<Rightarrow> Exercices list \<Rightarrow> Exercices list" where
  "exercices_updated en i dat rows =
     map (\<lambda>r. if e_id r = i
               then r\<lparr>e_nom := override (ue_nom dat) (e_nom r),
                       e_description := override_opt (ue_description dat) (e_description r),
                       e_matieresId := override (ue_matieresId dat) (e_matieresId r),
                       e_sousLeconsId := override (ue_sousLeconsId dat) (e_sousLeconsId r),
                       e_leconId := override (ue_leconId dat) (e_leconId r),
                       e_typesExercice := override (ue_typesExercice dat) (e_typesExercice r),
                       e_updatedAt := now en\<rparr>
               else r) rows"

definition exercices_put_try ::
  "nat option \<Rightarrow> env \<Rightarrow> db \<Rightarrow> string \<Rightarrow> updateExercice \<Rightarrow> exn + response \<times> db" where
  "exercices_put_try fault en d i dat =
     (if fault = Some 0 then Inl StorageFailure
      else case find (\<lambda>r. e_id r = i) (exercices d) of
        None \<Rightarrow> Inr (error_only 404 ''Exercice non trouve'', d)
      | Some existingExercice \<Rightarrow>
          (let c1 = truthy (ue_matieresId dat);
               k2 = (if c1 then 2 else 1);
               c2 = truthy_nullable (ue_sousLeconsId dat);
               k3 = (if c2 then Suc k2 else k2);
               c3 = truthy_nullable (ue_leconId dat);
               k4 = (if c3 then Suc k3 else k3)
           in if c1 \<and> fault = Some 1 then Inl StorageFailure
              else if c1 \<and> find (\<lambda>m. Some (m_id m) = ue_matieresId dat) (matieres d) = None
              then Inr (error_only 404 ''Matiere non trouvee'', d)
              else if c2 \<and> fault = Some k2 then Inl StorageFailure
              else if c2 \<and>
                      find (\<lambda>s. Some (Some (s_id s)) = ue_sousLeconsId dat) (sousLecons d) = None
              then Inr (error_only 404 ''Sous-lecon non trouvee'', d)
              else if c3 \<and> fault = Some k3 then Inl StorageFailure
              else if c3 \<and> find (\<lambda>l. Some (Some (l_id l)) = ue_leconId dat) (lecons d) = None
              then Inr (error_only 404 ''Lecon non trouvee'', d)
              else if fault = Some k4 then Inl StorageFailure
              else if ue_typesExercice dat \<noteq> None \<and>
                      override (ue_typesExercice dat) [] \<notin> set TypesExercice
              then Inl ValidationError
              else let rows = exercices_updated en i dat (exercices d)
                   in (case find (\<lambda>r. e_id r = i) rows of
                         None \<Rightarrow> Inl RecordNotFound
                       | Some updatedExercice \<Rightarrow>
                           Inr (answered 200 ''Exercice mis a jour avec succes''
                                  (ExerciceData updatedExercice),
                                d\<lparr>exercices := rows\<rparr>))))"

definition exercices_put ::
  "nat option \<Rightarrow> env \<Rightarrow> db \<Rightarrow> string \<Rightarrow> updateExercice \<Rightarrow> response \<times> db" where
  "exercices_put fault en d i dat =
     (if updateExerciceSchema dat
      then try_catch (exercices_put_try fault en d i dat) (\<lambda>e. error_only 500 ''Erreur serveur'') d
      else (validation_failed, d))"

text \<open>
  \<open>DELETE /exercices/:id\<close>. The handler counts the options and the answers of the
  exercise and deletes it without another check; its comment expects the storage
  engine to delete them in cascade. The relations \<open>OptionsQCM.exercices\<close> and
  \<open>Reponses.exercices\<close> are required and declare no \<open>onDelete\<close>, and the migration
  creates both foreign keys \<open>ON DELETE RESTRICT\<close>: the engine refuses the delete while
  an option or an answer references the exercise.
\<close>

definition exercices_delete_row :: "db \<Rightarrow> string \<Rightarrow> exn + db" where
  "exercices_delete_row d i =
     (if list_ex (\<lambda>q. o_exercicesId q = i) (optionsQCM d) \<or>
         list_ex (\<lambda>r. r_exercicesId r = i) (reponses d)
      then Inl ForeignKeyViolation
      else Inr (d\<lparr>exercices := filter (\<lambda>r. e_id r \<noteq> i) (exercices d)\<rparr>))"

definition exercices_delete_try :: "nat option \<Rightarrow> db \<Rightarrow> string \<Rightarrow> exn + response \<times> db" where
  "exercices_delete_try fault d i =
     (if fault = Some 0 then Inl StorageFailure
      else case find (\<lambda>r. e_id r = i) (exercices d) of
        None \<Rightarrow> Inr (error_only 404 ''Exercice non trouve'', d)
      | Some exercice \<Rightarrow>
          if fault = Some 1 then Inl StorageFailure
          else (case exercices_delete_row d i of
                  Inl e \<Rightarrow> Inl e
                | Inr d' \<Rightarrow>
                    Inr (answered 200 ''Exercice supprime avec succes''
                           (DeletedRelations
                              (length (filter (\<lambda>q. o_exercicesId q = i) (optionsQCM d)))
                              (length (filter (\<lambda>r. r_exercicesId r = i) (reponses d)))),
                         d')))"

definition exercices_delete :: "nat option \<Rightarrow> db \<Rightarrow> string \<Rightarrow> response \<times> db" where
  "exercices_delete fault d i =
     try_catch (exercices_delete_try fault d i) (\<lambda>e. error_only 500 ''Erreur serveur'') d"

text \<open>\<open>POST /options-qcm\<close>: the exercise must exist (404) and be of type QCM (400).\<close>

record createOptionQCM =
  co_nom :: string
  co_description :: "string option"
  co_exercicesId :: string
  co_points :: "int option"
  co_isCorrect :: bool
  co_isSelected :: bool

definition createOptionQCMSchema :: "createOptionQCM \<Rightarrow> bool" where
  "createOptionQCMSchema dat =
     (co_nom dat \<noteq> [] \<and> is_cuid (co_exercicesId dat) \<and> points_ok (co_points dat))"

definition optionsQCM_create :: "env \<Rightarrow> nat \<Rightarrow> createOptionQCM \<Rightarrow> OptionsQCM" where
  "optionsQCM_create en k dat =
     \<lparr>o_id = cuid en k, o_nom = co_nom dat, o_description = co_description dat,
      o_exercicesId = co_exercicesId dat, o_points = co_points dat,
      o_isCorrect = co_isCorrect dat, o_isSelected = co_isSelected dat,
      o_createdAt = now en, o_updatedAt = now en\<rparr>"

definition optionsQCM_post_try ::
  "nat option \<Rightarrow> env \<Rightarrow> db \<Rightarrow> createOptionQCM \<Rightarrow> exn + response \<times> db" where
  "optionsQCM_post_try fault en d dat =
     (if fault = Some 0 then Inl StorageFailure
      else case find (\<lambda>e. e_id e = co_exercicesId dat) (exercices d) of
        None \<Rightarrow> Inr (error_only 404 ''Exercice non trouve'', d)
      | Some exercice \<Rightarrow>
          if e_typesExercice exercice \<noteq> ''QCM''
          then Inr (error_only 400 ''Cet exercice n'est pas de type QCM'', d)
          else if fault = Some 1 then Inl StorageFailure
          else let option = optionsQCM_create en 0 dat
               in Inr (answered 201 ''Option QCM creee avec succes'' (OptionData option),
                       d\<lparr>optionsQCM := optionsQCM d @ [option]\<rparr>))"

definition optionsQCM_post ::
  "nat option \<Rightarrow> env \<Rightarrow> db \<Rightarrow> createOptionQCM \<Rightarrow> response \<times> db" where
  "optionsQCM_post fault en d dat =
     (if createOptionQCMSchema dat
      then try_catch (optionsQCM_post_try fault en d dat) (\<lambda>e. error_only 500 ''Erreur serveur'') d
      else (validation_failed, d))"

text \<open>
  \<open>POST /options-qcm/bulk\<close>: the options are created in one transaction, each with
  \<open>exercicesId\<close> of the request and \<open>isSelected: false\<close>. The schema asks for at least
  one option.
\<close>

record bulkOption =
  bo_nom :: string
  bo_description :: "string option"
  bo_points :: "int option"
  bo_isCorrect :: bool

definition bulkSchema :: "string \<Rightarrow> bulkOption list \<Rightarrow> bool" where
  "bulkSchema exercicesId options =
     (is_cuid exercicesId \<and> options \<noteq> [] \<and>
      list_all (\<lambda>option. bo_nom option \<noteq> [] \<and> points_ok (bo_points option)) options)"

definition bulk_data :: "string \<Rightarrow> bulkOption \<Rightarrow> createOptionQCM" where
  "bulk_data exercicesId option =
     \<lparr>co_nom = bo_nom option, co_description = bo_description option,
      co_exercicesId = exercicesId, co_points = bo_points option,
      co_isCorrect = bo_isCorrect option, co_isSelected = False\<rparr>"

definition optionsQCM_bulk_try ::
  "nat option \<Rightarrow> env \<Rightarrow> db \<Rightarrow> string \<Rightarrow> bulkOption list \<Rightarrow> exn + response \<times> db" where
  "optionsQCM_bulk_try fault en d exercicesId options =
     (if fault = Some 0 then Inl StorageFailure
      else case find (\<lambda>e. e_id e = exercicesId) (exercices d) of
        None \<Rightarrow> Inr (error_only 404 ''Exercice non trouve'', d)
      | Some exercice \<Rightarrow>
          if e_typesExercice exercice \<noteq> ''QCM''
          then Inr (error_only 400 ''Cet exercice n'est pas de type QCM'', d)
          else if fault = Some 1 then Inl StorageFailure
          else let createdOptions =
                     map (\<lambda>(k, option). optionsQCM_create en k (bulk_data exercicesId option))
                       (enumerate 0 options)
               in Inr (answered 201
                         (show_nat (length createdOptions) @ '' options QCM creees avec succes'')
                         (OptionsData createdOptions),
                       d\<lparr>optionsQCM := optionsQCM d @ createdOptions\<rparr>))"

definition optionsQCM_bulk ::
  "nat option \<Rightarrow> env \<Rightarrow> db \<Rightarrow> string \<Rightarrow> bulkOption list \<Rightarrow> response \<times> db" where
  "optionsQCM_bulk fault en d exercicesId options =
     (if bulkSchema exercicesId options
      then try_catch (optionsQCM_bulk_try fault en d exercicesId options)
             (\<lambda>e. error_only 500 ''Erreur serveur'') d
      else (validation_failed, d))"

section \<open>Users (ApiRoutes/utilisateurs.ts)\<close>

text \<open>
  \<open>hashPassword\<close> is the hexadecimal SHA-256 digest of the password; the handlers
  take it as the parameter \<open>H\<close>. \<open>verifyPassword\<close> hashes and compares.
\<close>

definition verifyPassword :: "(string \<Rightarrow> string) \<Rightarrow> string \<Rightarrow> string \<Rightarrow> bool" where
  "verifyPassword H password hash = (H password = hash)"

record registerData =
  rg_email :: string
  rg_nom :: "string option"
  rg_prenom :: "string option"
  rg_password :: string
  rg_dataInscription :: "string option"

text \<open>
  \<open>POST /users/register\<close>. The handler asks for a row with
  \<open>typesUtilisateur: "USER"\<close>, answered through a \<open>select\<close> without the password.
  The client refuses a create whose \<open>typesUtilisateur\<close> is not in the enumeration of
  the schema.
\<close>

definition user_requested :: "(string \<Rightarrow> string) \<Rightarrow> env \<Rightarrow> registerData \<Rightarrow> User" where
  "user_requested H en dat =
     \<lparr>u_id = cuid en 0, u_email = rg_email dat, u_nom = rg_nom dat, u_prenom = rg_prenom dat,
      u_password = H (rg_password dat), u_dataInscription = rg_dataInscription dat,
      u_derniereConnexion = None, u_typesUtilisateur = ''USER'', u_classesId = None,
      u_createdAt = now en, u_updatedAt = now en\<rparr>"

definition user_select :: "User \<Rightarrow> user_selected" where
  "user_select u =
     \<lparr>us_id = u_id u, us_email = u_email u, us_nom = u_nom u, us_prenom = u_prenom u,
      us_dataInscription = u_dataInscription u, us_typesUtilisateur = u_typesUtilisateur u,
      us_createdAt = u_createdAt u, us_updatedAt = u_updatedAt u\<rparr>"

definition register_try ::
  "(string \<Rightarrow> string) \<Rightarrow> nat option \<Rightarrow> env \<Rightarrow> db \<Rightarrow> registerData \<Rightarrow> exn + response \<times> db" where
  "register_try H fault en d dat =
     (if fault = Some 0 then Inl StorageFailure
      else case find (\<lambda>u. u_email u = rg_email dat) (user d) of
        Some existingUser \<Rightarrow>
          Inr (error_only 400 ''Un utilisateur avec cet email existe deja'', d)
      | None \<Rightarrow>
          if fault = Some 1 then Inl StorageFailure
          else if u_typesUtilisateur (user_requested H en dat) \<notin> set TypesUtilisateur
          then Inl ValidationError
          else let created = user_requested H en dat
               in Inr (answered 201 ''Utilisateur cree avec succes'' (UserData (user_select created)),
                       d\<lparr>user := user d @ [created]\<rparr>))"

definition register ::
  "(string \<Rightarrow> string) \<Rightarrow> nat option \<Rightarrow> env \<Rightarrow> db \<Rightarrow> registerData \<Rightarrow> response \<times> db" where
  "register H fault en d dat =
     try_catch (register_try H fault en d dat) (\<lambda>e. error_only 500 ''Erreur serveur'') d"

text \<open>
  \<open>POST /users/login\<close>, for a body whose \<open>email\<close> and \<open>password\<close> are strings. The
  clock \<open>now\<close> is in milliseconds; the expiry is in seconds.
\<close>

definition login_try ::
  "(string \<Rightarrow> string) \<Rightarrow> nat option \<Rightarrow> env \<Rightarrow> db \<Rightarrow> string \<Rightarrow> string \<Rightarrow> exn + response \<times> db" where
  "login_try H fault en d email_in password_in =
     (if fault = Some 0 then Inl StorageFailure
      else case find (\<lambda>u. u_email u = email_in) (user d) of
        None \<Rightarrow> Inr (error_only 400 ''Email ou mot de passe incorrect'', d)
      | Some usr \<Rightarrow>
          if \<not> verifyPassword H password_in (u_password usr)
          then Inr (error_only 400 ''Email ou mot de passe incorrect'', d)
          else if fault = Some 1 then Inl StorageFailure
          else let rows = map (\<lambda>u. if u_id u = u_id usr
                                     then u\<lparr>u_derniereConnexion := Some (now en),
                                             u_updatedAt := now en\<rparr>
                                     else u) (user d);
                   token = Signed \<lparr>userId = u_id usr, email = u_email usr,
                                    exp = now en div 1000 + 72 * 60 * 60\<rparr> (JWT_SECRET en)
               in Inr (answered 200 ''Connexion reussie''
                         (LoginData token
                            \<lparr>up_id = u_id usr, up_email = u_email usr, up_nom = u_nom usr,
                             up_prenom = u_prenom usr,
                             up_typesUtilisateur = u_typesUtilisateur usr\<rparr>),
                       d\<lparr>user := rows\<rparr>))"

definition login ::
  "(string \<Rightarrow> string) \<Rightarrow> nat option \<Rightarrow> env \<Rightarrow> db \<Rightarrow> string \<Rightarrow> string \<Rightarrow> response \<times> db" where
  "login H fault en d email_in password_in =
     try_catch (login_try H fault en d email_in password_in)
       (\<lambda>e. error_only 500 ''Erreur serveur'') d"

text \<open>The expiry carried by the token of a response, if the response carries a token.\<close>

definition token_exp :: "response \<Rightarrow> nat option" where
  "token_exp r =
     (case data r of
        LoginData (Signed payload secret) profile \<Rightarrow> Some (exp payload)
      | _ \<Rightarrow> None)"

section \<open>The page of the specification\<close>


section \<open>Example stores\<close>

definition env0 :: env where
  "env0 = \<lparr>now = 1700000000000, cuid = (\<lambda>k. ''new'' @ show_nat k), JWT_SECRET = ''secret''\<rparr>"

definition store_empty :: db where
  "store_empty =
     \<lparr>classes = [], matieres = [], lecons = [], sousLecons = [], exercices = [],
      optionsQCM = [], leconsUtilisateur = [], reponses = [], user = []\<rparr>"

definition classe_cm2 :: Classes where
  "classe_cm2 = \<lparr>c_id = ''c1'', c_nom = ''CM2'', c_createdAt = 1, c_updatedAt = 1\<rparr>"

definition matiere_math :: Matieres where
  "matiere_math =
     \<lparr>m_id = ''m1'', m_nom = ''Math'', m_description = None, m_classesId = ''c1'',
      m_pointsTotalMatiere = None, m_pointsSeuilMatiere = None,
      m_createdAt = 2, m_updatedAt = 2\<rparr>"

definition lecon_fractions :: Lecons where
  "lecon_fractions =
     \<lparr>l_id = ''l1'', l_nom = ''Fractions'', l_description = None, l_matieresId = ''m1'',
      l_createdAt = 3, l_updatedAt = 3\<rparr>"

definition souslecon_addition :: SousLecons where
  "souslecon_addition =
     \<lparr>s_id = ''s1'', s_nom = ''Addition'', s_description = None, s_leconsId = ''l1'',
      s_createdAt = 4, s_updatedAt = 4\<rparr>"

definition exercice_numerique :: Exercices where
  "exercice_numerique =
     \<lparr>e_id = ''e1'', e_nom = ''Calcul'', e_description = None, e_matieresId = ''m1'',
      e_sousLeconsId = Some ''s1'', e_leconId = Some ''l1'', e_typesExercice = ''Numerique'',
      e_createdAt = 5, e_updatedAt = 5\<rparr>"

definition exercice_qcm :: Exercices where
  "exercice_qcm =
     \<lparr>e_id = ''e2'', e_nom = ''Quiz'', e_description = None, e_matieresId = ''m1'',
      e_sousLeconsId = None, e_leconId = None, e_typesExercice = ''QCM'',
      e_createdAt = 6, e_updatedAt = 6\<rparr>"

definition exercice_essai :: Exercices where
  "exercice_essai =
     \<lparr>e_id = ''e3'', e_nom = ''Essai'', e_description = None, e_matieresId = ''m1'',
      e_sousLeconsId = None, e_leconId = None, e_typesExercice = ''QCM'',
      e_createdAt = 7, e_updatedAt = 7\<rparr>"

definition option_a :: OptionsQCM where
  "option_a =
     \<lparr>o_id = ''o1'', o_nom = ''A'', o_description = None, o_exercicesId = ''e2'',
      o_points = None, o_isCorrect = True, o_isSelected = False,
      o_createdAt = 8, o_updatedAt = 8\<rparr>"

text \<open>A class, a subject and two exercises whose identifiers have the cuid shape.\<close>

definition classe_cuid :: Classes where
  "classe_cuid =
     \<lparr>c_id = ''cclasse000000000000000001'', c_nom = ''CE1'', c_createdAt = 9, c_updatedAt = 9\<rparr>"

definition matiere_cuid :: Matieres where
  "matiere_cuid =
     \<lparr>m_id = ''cmatiere00000000000000001'', m_nom = ''Physique'', m_description = None,
      m_classesId = ''cclasse000000000000000001'', m_pointsTotalMatiere = None, m_pointsSeuilMatiere = None,
      m_createdAt = 10, m_updatedAt = 10\<rparr>"

definition exercice_cuid_numerique :: Exercices where
  "exercice_cuid_numerique =
     \<lparr>e_id = ''cexercice0000000000000001'', e_nom = ''Mesure'', e_description = None,
      e_matieresId = ''cmatiere00000000000000001'', e_sousLeconsId = None, e_leconId = None,
      e_typesExercice = ''Numerique'', e_createdAt = 11, e_updatedAt = 11\<rparr>"

definition exercice_cuid_qcm :: Exercices where
  "exercice_cuid_qcm =
     \<lparr>e_id = ''cexercice0000000000000002'', e_nom = ''Unites'', e_description = None,
      e_matieresId = ''cmatiere00000000000000001'', e_sousLeconsId = None, e_leconId = None,
      e_typesExercice = ''QCM'', e_createdAt = 12, e_updatedAt = 12\<rparr>"

definition user_alice :: "(string \<Rightarrow> string) \<Rightarrow> User" where
  "user_alice H =
     \<lparr>u_id = ''u1'', u_email = ''alice@example.org'', u_nom = None, u_prenom = None,
      u_password = H ''secret1'', u_dataInscription = None, u_derniereConnexion = None,
      u_typesUtilisateur = ''ELEVE'', u_classesId = Some ''c1'',
      u_createdAt = 9, u_updatedAt = 9\<rparr>"

text \<open>A class with one subject; the subject alone in its class; the whole hierarchy.\<close>

definition store_classe :: db where
  "store_classe = store_empty\<lparr>classes := [classe_cm2]\<rparr>"

definition store_math :: db where
  "store_math = store_empty\<lparr>classes := [classe_cm2], matieres := [matiere_math]\<rparr>"

definition store_lecon :: db where
  "store_lecon = store_math\<lparr>lecons := [lecon_fractions]\<rparr>"

definition store_souslecon :: db where
  "store_souslecon = store_lecon\<lparr>sousLecons := [souslecon_addition]\<rparr>"

definition store_exercices :: db where
  "store_exercices =
     store_souslecon\<lparr>exercices := [exercice_numerique, exercice_qcm, exercice_essai],
                      optionsQCM := [option_a]\<rparr>"

definition store_cuid :: db where
  "store_cuid =
     store_empty\<lparr>classes := [classe_cuid], matieres := [matiere_cuid],
                  exercices := [exercice_cuid_numerique, exercice_cuid_qcm]\<rparr>"

lemmas store_defs =
  store_empty_def classe_cm2_def matiere_math_def lecon_fractions_def souslecon_addition_def
  exercice_numerique_def exercice_qcm_def exercice_essai_def option_a_def user_alice_def
  store_classe_def store_math_def store_lecon_def store_souslecon_def store_exercices_def
  classe_cuid_def matiere_cuid_def exercice_cuid_numerique_def exercice_cuid_qcm_def store_cuid_def

lemmas schema_defs =
  createExerciceSchema_def updateExerciceSchema_def createOptionQCMSchema_def bulkSchema_def
  is_cuid_def is_cuid_opt_def is_cuid_nullable_def points_ok_def whitespace_def

lemmas response_defs =
  try_catch_def failure_def error_only_def succeeded_def done_message_def page_def answered_def

lemmas insensitive_defs =
  equals_insensitive_def contains_insensitive_def contains_insensitive_opt_def lower_def
  lower_char_def

section \<open>Properties\<close>

text \<open>
  C8, evaluated on the handler that breaks it. The claim is that every handler turns an
  unexpected failure of the storage layer into a response with status 500. The second
  version of \<open>POST /classes/new\<close> sets the status to 501 in its \<open>catch\<close> block: when
  its first storage call (the lookup of the name) raises, the response has status 501,
  whatever the store and the name are.
\<close>

theorem classes_post_new_storage_failure_501:
  "status (fst (classes_post_new (Some 0) en d nom)) = 501"
  by (simp add: classes_post_new_def classes_post_new_try_def try_catch_def)

text \<open>
  Every other modelled handler ends in a \<open>catch\<close> block that answers 500, as the
  registration handler does when a storage call raises.
\<close>

lemma caught_failure_500:
  "status (fst (try_catch (Inl e) (\<lambda>e. failure 500 msg) d)) = 500 \<and>
   status (fst (try_catch (Inl e) (\<lambda>e. error_only 500 msg) d)) = 500"
  by (simp add: try_catch_def failure_def error_only_def)

lemma register_storage_failure_500:
  "fault = Some 0 \<or> (fault = Some 1 \<and> find (\<lambda>u. u_email u = rg_email dat) (user d) = None) \<Longrightarrow>
   register H fault en d dat = (error_only 500 ''Erreur serveur'', d)"
  by (auto simp: register_def register_try_def try_catch_def)

subsection \<open>Scoped name uniqueness on creation\<close>

text \<open>
  The create handlers of classes (first version), lessons and sub-lessons pass
  \<open>mode: "insensitive"\<close> to look the name up, which the sqlite client refuses: while
  the storage layer works, every such create is answered 500 and creates no row
  (a lesson or a sub-lesson whose parent is missing is answered 400 before).
\<close>

lemma classes_post_refused:
  "classes_post None en d nom =
     (failure 500 ''Erreur serveur lors de la creation de la classe'', d)"
  by (simp add: classes_post_def classes_post_try_def try_catch_def mode_refused_def
      datasource_def)

lemma lecons_post_refused:
  "find (\<lambda>m. m_id m = cl_matieresId dat) (matieres d) \<noteq> None \<Longrightarrow>
   lecons_post None en d dat =
     (failure 500 ''Erreur serveur lors de la creation de la lecon'', d)"
  by (auto simp: lecons_post_def lecons_post_try_def try_catch_def mode_refused_def
      datasource_def)

lemma sousLecons_post_refused:
  "find (\<lambda>l. l_id l = cs_leconsId dat) (lecons d) \<noteq> None \<Longrightarrow>
   sousLecons_post None en d dat =
     (failure 500 ''Erreur serveur lors de la creation de la sous-lecon'', d)"
  by (auto simp: sousLecons_post_def sousLecons_post_try_def try_catch_def mode_refused_def
      datasource_def)

text \<open>
  C1, evaluated on the handler that breaks it. The claim is that for every resource with
  scoped name uniqueness, creating a second sibling whose name differs from an existing
  sibling's only in letter case, under the same parent, fails with 400 and creates no
  row. \<open>POST /matieres\<close> compares the name exactly: in the class CM2, which holds the
  subject "Math", creating the subject "math" is answered 201 and the class then holds
  both subjects.
\<close>

theorem matieres_post_case_variant_created:
  "status (fst (matieres_post None env0 store_math
       \<lparr>cm_nom = ''math'', cm_description = None, cm_classesId = ''c1'',
        cm_pointsTotalMatiere = None, cm_pointsSeuilMatiere = None\<rparr>)) = 201 \<and>
   map m_nom (matieres (snd (matieres_post None env0 store_math
       \<lparr>cm_nom = ''math'', cm_description = None, cm_classesId = ''c1'',
        cm_pointsTotalMatiere = None, cm_pointsSeuilMatiere = None\<rparr>))) = [''Math'', ''math''] \<and>
   map m_classesId (matieres (snd (matieres_post None env0 store_math
       \<lparr>cm_nom = ''math'', cm_description = None, cm_classesId = ''c1'',
        cm_pointsTotalMatiere = None, cm_pointsSeuilMatiere = None\<rparr>))) = [''c1'', ''c1''] \<and>
   equals_insensitive ''Math'' ''math''"
  by (simp add: matieres_post_def matieres_post_try_def matieres_create_def Let_def
      store_defs response_defs insensitive_defs)

text \<open>The second version of the class router, \<open>POST /classes/new\<close>, compares exactly too.\<close>

lemma classes_post_new_case_variant_created:
  "status (fst (classes_post_new None env0 store_classe ''cm2'')) = 201 \<and>
   map c_nom (classes (snd (classes_post_new None env0 store_classe ''cm2''))) = [''CM2'', ''cm2'']"
  by (simp add: classes_post_new_def classes_post_new_try_def classes_create_def Let_def
      store_defs response_defs)

subsection \<open>The cascade guard\<close>

text \<open>
  A delete by primary key keeps the rows with another key; when the keys of a table are
  distinct, that removes exactly the row found.
\<close>

lemma filter_id_remove1:
  "distinct (map key rows) \<Longrightarrow> find (\<lambda>r. key r = i) rows = Some row \<Longrightarrow>
   filter (\<lambda>r. key r \<noteq> i) rows = remove1 row rows"
proof (induction rows)
  case Nil
  then show ?case by simp
next
  case (Cons a rows)
  show ?case
  proof (cases "key a = i")
    case True
    with Cons.prems have "row = a" and "\<forall>r \<in> set rows. key r \<noteq> i"
      by (auto simp: image_iff)
    then show ?thesis using True by simp
  next
    case False
    with Cons.prems have found: "find (\<lambda>r. key r = i) rows = Some row"
      by simp
    then have "key row = i"
      by (auto simp: find_Some_iff)
    with False have "row \<noteq> a"
      by auto
    with Cons.IH Cons.prems found False show ?thesis
      by simp
  qed
qed

lemma filter_Nil_list_ex: "(filter P xs = []) = (\<not> list_ex P xs)"
  by (induction xs) auto

lemma set_null_unreferenced:
  "\<not> list_ex (\<lambda>e. ref e = Some i) xs \<Longrightarrow> map (\<lambda>e. if ref e = Some i then upd e else e) xs = xs"
  by (induction xs) auto

lemma classes_delete_guard:
  assumes "i \<noteq> []" and "find (\<lambda>r. c_id r = i) (classes d) \<noteq> None"
  shows "classes_delete None d i =
     (if list_ex (\<lambda>m. m_classesId m = i) (matieres d)
      then (failure 400 (''Impossible de supprimer la classe car elle contient '' @
               show_nat (length (filter (\<lambda>m. m_classesId m = i) (matieres d))) @ '' matiere(s)''), d)
      else (done_message ''Classe supprimee avec succes'',
            d\<lparr>classes := filter (\<lambda>r. c_id r \<noteq> i) (classes d),
              user := map (\<lambda>u. if u_classesId u = Some i then u\<lparr>u_classesId := None\<rparr> else u)
                        (user d)\<rparr>))"
  using assms
  by (auto simp: classes_delete_def classes_delete_try_def classes_delete_row_def try_catch_def
      filter_Nil_list_ex)

lemma matieres_delete_guard:
  assumes "find (\<lambda>r. m_id r = i) (matieres d) \<noteq> None"
  shows "matieres_delete None d i =
     (if list_ex (\<lambda>l. l_matieresId l = i) (lecons d) \<or>
         list_ex (\<lambda>e. e_matieresId e = i) (exercices d)
      then (failure 400
              ''Impossible de supprimer la matiere car elle contient des lecons ou des exercices'', d)
      else (done_message ''Matiere supprimee avec succes'',
            d\<lparr>matieres := filter (\<lambda>r. m_id r \<noteq> i) (matieres d)\<rparr>))"
  using assms
  by (auto simp: matieres_delete_def matieres_delete_try_def matieres_delete_row_def try_catch_def
      filter_Nil_list_ex)

lemma lecons_delete_guard:
  assumes "i \<noteq> []" and "find (\<lambda>r. l_id r = i) (lecons d) \<noteq> None"
  shows "lecons_delete None d i =
     (if list_ex (\<lambda>s. s_leconsId s = i) (sousLecons d) \<or>
         list_ex (\<lambda>e. e_leconId e = Some i) (exercices d) \<or>
         list_ex (\<lambda>u. lu_leconsId u = i) (leconsUtilisateur d)
      then (failure 400
              ''Impossible de supprimer la lecon car elle contient des sous-lecons, exercices ou est utilisee par des utilisateurs'', d)
      else (done_message ''Lecon supprimee avec succes'',
            d\<lparr>lecons := filter (\<lambda>r. l_id r \<noteq> i) (lecons d)\<rparr>))"
  using assms
  by (auto simp: lecons_delete_def lecons_delete_try_def lecons_delete_row_def try_catch_def
      filter_Nil_list_ex set_null_unreferenced Let_def)

lemma sousLecons_delete_guard:
  assumes "i \<noteq> []" and "find (\<lambda>r. s_id r = i) (sousLecons d) \<noteq> None"
  shows "sousLecons_delete None d i =
     (if list_ex (\<lambda>e. e_sousLeconsId e = Some i) (exercices d)
      then (failure 400 (''Impossible de supprimer la sous-lecon car elle contient '' @
               show_nat (length (filter (\<lambda>e. e_sousLeconsId e = Some i) (exercices d))) @
               '' exercice(s)''), d)
      else (done_message ''Sous-lecon supprimee avec succes'',
            d\<lparr>sousLecons := filter (\<lambda>r. s_id r \<noteq> i) (sousLecons d)\<rparr>))"
  using assms
  by (auto simp: sousLecons_delete_def sousLecons_delete_try_def sousLecons_delete_row_def
      try_catch_def filter_Nil_list_ex set_null_unreferenced)

text \<open>
  C2: for every guarded parent (class, subject, lesson, sub-lesson), while the storage
  layer works, deleting an existing parent that has a dependent row in one of its
  guarded relations is answered 400 and leaves the whole store unchanged; deleting an
  existing parent without dependent rows is answered 200 and the store afterwards is
  the old store without the rows of that id in the parent's table (for a class, the
  users of the class, which no guard counts, also lose their \<open>classesId\<close>).
\<close>

theorem cascade_guard:
  "(i \<noteq> [] \<and> find (\<lambda>r. c_id r = i) (classes d) \<noteq> None \<longrightarrow>
      (if list_ex (\<lambda>m. m_classesId m = i) (matieres d)
       then status (fst (classes_delete None d i)) = 400 \<and> snd (classes_delete None d i) = d
       else status (fst (classes_delete None d i)) = 200 \<and>
            snd (classes_delete None d i) =
              d\<lparr>classes := filter (\<lambda>r. c_id r \<noteq> i) (classes d),
                user := map (\<lambda>u. if u_classesId u = Some i then u\<lparr>u_classesId := None\<rparr> else u)
                          (user d)\<rparr>)) \<and>
   (find (\<lambda>r. m_id r = i) (matieres d) \<noteq> None \<longrightarrow>
      (if list_ex (\<lambda>l. l_matieresId l = i) (lecons d) \<or>
          list_ex (\<lambda>e. e_matieresId e = i) (exercices d)
       then status (fst (matieres_delete None d i)) = 400 \<and> snd (matieres_delete None d i) = d
       else status (fst (matieres_delete None d i)) = 200 \<and>
            snd (matieres_delete None d i) =
              d\<lparr>matieres := filter (\<lambda>r. m_id r \<noteq> i) (matieres d)\<rparr>)) \<and>
   (i \<noteq> [] \<and> find (\<lambda>r. l_id r = i) (lecons d) \<noteq> None \<longrightarrow>
      (if list_ex (\<lambda>s. s_leconsId s = i) (sousLecons d) \<or>
          list_ex (\<lambda>e. e_leconId e = Some i) (exercices d) \<or>
          list_ex (\<lambda>u. lu_leconsId u = i) (leconsUtilisateur d)
       then status (fst (lecons_delete None d i)) = 400 \<and> snd (lecons_delete None d i) = d
       else status (fst (lecons_delete None d i)) = 200 \<and>
            snd (lecons_delete None d i) = d\<lparr>lecons := filter (\<lambda>r. l_id r \<noteq> i) (lecons d)\<rparr>)) \<and>
   (i \<noteq> [] \<and> find (\<lambda>r. s_id r = i) (sousLecons d) \<noteq> None \<longrightarrow>
      (if list_ex (\<lambda>e. e_sousLeconsId e = Some i) (exercices d)
       then status (fst (sousLecons_delete None d i)) = 400 \<and> snd (sousLecons_delete None d i) = d
       else status (fst (sousLecons_delete None d i)) = 200 \<and>
            snd (sousLecons_delete None d i) =
              d\<lparr>sousLecons := filter (\<lambda>r. s_id r \<noteq> i) (sousLecons d)\<rparr>))"
  by (simp add: classes_delete_guard matieres_delete_guard lecons_delete_guard
      sousLecons_delete_guard failure_def done_message_def)

theorem cascade_guard_witness:
  "status (fst (classes_delete None store_math ''c1'')) = 400 \<and>
   snd (classes_delete None store_math ''c1'') = store_math \<and>
   status (fst (matieres_delete None store_math ''m1'')) = 200 \<and>
   snd (matieres_delete None store_math ''m1'') = store_classe \<and>
   status (fst (classes_delete None store_classe ''c1'')) = 200 \<and>
   snd (classes_delete None store_classe ''c1'') = store_empty \<and>
   status (fst (lecons_delete None store_souslecon ''l1'')) = 400 \<and>
   snd (lecons_delete None store_souslecon ''l1'') = store_souslecon \<and>
   status (fst (sousLecons_delete None store_souslecon ''s1'')) = 200 \<and>
   snd (sousLecons_delete None store_souslecon ''s1'') = store_lecon \<and>
   status (fst (lecons_delete None store_lecon ''l1'')) = 200 \<and>
   snd (lecons_delete None store_lecon ''l1'') = store_math"
  using cascade_guard [of "''c1''" store_math] cascade_guard [of "''m1''" store_math]
    cascade_guard [of "''c1''" store_classe] cascade_guard [of "''l1''" store_souslecon]
    cascade_guard [of "''s1''" store_souslecon] cascade_guard [of "''l1''" store_lecon]
  by (simp add: store_defs)

subsection \<open>Pagination\<close>


text \<open>
  The first version of \<open>GET /classes\<close> is apart: its \<open>hasMore\<close> is false and its
  \<open>total\<close> absent for every store, and \<open>search\<close> does not filter.
\<close>

lemma classes_get_hasMore_false:
  "pagination (fst (classes_get None d (Some lim) (Some off) s)) =
     Some \<lparr>p_total = None, p_limit = lim, p_offset = off, p_hasMore = False\<rparr> \<and>
   rows_returned (fst (classes_get None d (Some lim) (Some off) s)) = min lim (length (classes d) - off)"
  by (simp add: classes_get_def classes_get_try_def try_catch_def rows_returned_def Let_def)


lemma length_lecons_orderBy [simp]: "length (lecons_orderBy col dir rows) = length rows"
  by (cases col; cases dir) (simp_all add: lecons_orderBy_def)

lemma length_sousLecons_orderBy [simp]: "length (sousLecons_orderBy col dir rows) = length rows"
  by (cases col; cases dir) (simp_all add: sousLecons_orderBy_def)

lemma length_exercices_orderBy [simp]: "length (exercices_orderBy col dir rows) = length rows"
  by (cases col; cases dir) (simp_all add: exercices_orderBy_def)














text \<open>
  A non-empty \<open>search\<close> is another matter: the lists that filter by it pass
  \<open>mode: "insensitive"\<close>, which the sqlite client refuses, and answer 500.
\<close>

lemma search_refused:
  assumes "truthy search"
  shows "status (fst (classes_get2 None d lim off search)) = 500"
    and "status (fst (lecons_get None d lim off search parent col dir)) = 500"
    and "status (fst (sousLecons_get None d lim off search parent col dir)) = 500"
    and "status (fst (exercices_get None d pg lim search parent lecon souslecon kind)) = 500"
  using assms
  by (simp_all add: classes_get2_def classes_get2_try_def lecons_get_def lecons_get_try_def
      sousLecons_get_def sousLecons_get_try_def exercices_get_def exercices_get_try_def
      mode_refused_def datasource_def Let_def response_defs)



subsection \<open>Referenced parents\<close>

text \<open>
  C4 as stated is false. The claim is that every create or update handler answers 400
  when a referenced parent does not exist, 404 being kept for the entity named by the
  request path. \<open>POST /exercices\<close> names no entity in its path, and when the subject
  its body refers to does not exist it answers 404: the body below passes the validator
  (its \<open>matieresId\<close> has the cuid shape) and names a subject the store does not hold.
\<close>

theorem exercices_post_missing_parent_404:
  "createExerciceSchema
      \<lparr>ce_nom = ''Calcul'', ce_description = None, ce_matieresId = ''cmatiere00000000000000009'',
       ce_sousLeconsId = None, ce_leconId = None, ce_typesExercice = ''QCM''\<rparr> \<and>
   find (\<lambda>m. m_id m = ''cmatiere00000000000000009'') (matieres store_cuid) = None \<and>
   status (fst (exercices_post None env0 store_cuid
      \<lparr>ce_nom = ''Calcul'', ce_description = None, ce_matieresId = ''cmatiere00000000000000009'',
       ce_sousLeconsId = None, ce_leconId = None, ce_typesExercice = ''QCM''\<rparr>)) = 404"
  by (simp add: exercices_post_def exercices_post_try_def store_defs response_defs schema_defs)

lemma matieres_post_status:
  "find (\<lambda>c. c_id c = cm_classesId dat) (classes d) = None \<Longrightarrow>
     status (fst (matieres_post None en d dat)) = 400"
  "status (fst (matieres_post fault en d dat)) \<noteq> 404"
  by (auto simp: matieres_post_def matieres_post_try_def response_defs Let_def
      split: option.splits)

lemma lecons_post_status:
  "find (\<lambda>m. m_id m = cl_matieresId dat) (matieres d) = None \<Longrightarrow>
     status (fst (lecons_post None en d dat)) = 400"
  "status (fst (lecons_post fault en d dat)) \<noteq> 404"
  by (auto simp: lecons_post_def lecons_post_try_def response_defs Let_def
      split: option.splits)

lemma sousLecons_post_status:
  "find (\<lambda>l. l_id l = cs_leconsId dat) (lecons d) = None \<Longrightarrow>
     status (fst (sousLecons_post None en d dat)) = 400"
  "status (fst (sousLecons_post fault en d dat)) \<noteq> 404"
  by (auto simp: sousLecons_post_def sousLecons_post_try_def response_defs Let_def
      split: option.splits)

lemma matieres_put_missing_classe:
  "find (\<lambda>r. m_id r = i) (matieres d) \<noteq> None \<Longrightarrow> truthy (um_classesId dat) \<Longrightarrow>
   find (\<lambda>c. Some (c_id c) = um_classesId dat) (classes d) = None \<Longrightarrow>
     status (fst (matieres_put None en d i dat)) = 400"
  by (auto simp: matieres_put_def matieres_put_try_def response_defs Let_def)

lemma matieres_put_404:
  "status (fst (matieres_put fault en d i dat)) = 404 \<Longrightarrow>
     find (\<lambda>r. m_id r = i) (matieres d) = None"
  by (auto simp: matieres_put_def matieres_put_try_def response_defs Let_def
      split: option.splits if_splits)

lemmas matieres_put_status = matieres_put_missing_classe matieres_put_404

lemma lecons_put_status:
  "i \<noteq> [] \<Longrightarrow> find (\<lambda>r. l_id r = i) (lecons d) = Some row \<Longrightarrow>
   truthy (ul_matieresId dat) \<Longrightarrow> ul_matieresId dat \<noteq> Some (l_matieresId row) \<Longrightarrow>
   find (\<lambda>m. Some (m_id m) = ul_matieresId dat) (matieres d) = None \<Longrightarrow>
     status (fst (lecons_put None en d i dat)) = 400"
  "status (fst (lecons_put fault en d i dat)) = 404 \<Longrightarrow>
     find (\<lambda>r. l_id r = i) (lecons d) = None"
  by (auto simp: lecons_put_def lecons_put_try_def response_defs Let_def
      split: option.splits if_splits)

lemma sousLecons_put_status:
  "i \<noteq> [] \<Longrightarrow> find (\<lambda>r. s_id r = i) (sousLecons d) = Some row \<Longrightarrow>
   truthy (usl_leconsId dat) \<Longrightarrow> usl_leconsId dat \<noteq> Some (s_leconsId row) \<Longrightarrow>
   find (\<lambda>l. Some (l_id l) = usl_leconsId dat) (lecons d) = None \<Longrightarrow>
     status (fst (sousLecons_put None en d i dat)) = 400"
  "status (fst (sousLecons_put fault en d i dat)) = 404 \<Longrightarrow>
     find (\<lambda>r. s_id r = i) (sousLecons d) = None"
  by (auto simp: sousLecons_put_def sousLecons_put_try_def response_defs Let_def
      split: option.splits if_splits)

lemma exercices_post_status:
  "createExerciceSchema dat \<Longrightarrow>
   find (\<lambda>m. m_id m = ce_matieresId dat) (matieres d) = None \<or>
   (truthy (ce_sousLeconsId dat) \<and>
    find (\<lambda>s. Some (s_id s) = ce_sousLeconsId dat) (sousLecons d) = None) \<or>
   (truthy (ce_leconId dat) \<and>
    find (\<lambda>l. Some (l_id l) = ce_leconId dat) (lecons d) = None) \<Longrightarrow>
     status (fst (exercices_post None en d dat)) = 404"
  by (auto simp: exercices_post_def exercices_post_try_def response_defs Let_def
      split: option.splits)

lemma exercices_put_status:
  "updateExerciceSchema dat \<Longrightarrow>
   (truthy (ue_matieresId dat) \<and>
    find (\<lambda>m. Some (m_id m) = ue_matieresId dat) (matieres d) = None) \<or>
   (truthy_nullable (ue_sousLeconsId dat) \<and>
    find (\<lambda>s. Some (Some (s_id s)) = ue_sousLeconsId dat) (sousLecons d) = None) \<or>
   (truthy_nullable (ue_leconId dat) \<and>
    find (\<lambda>l. Some (Some (l_id l)) = ue_leconId dat) (lecons d) = None) \<Longrightarrow>
     status (fst (exercices_put None en d i dat)) = 404"
  by (auto simp: exercices_put_def exercices_put_try_def response_defs Let_def
      split: option.splits)

lemma optionsQCM_status:
  "createOptionQCMSchema dat \<Longrightarrow>
   find (\<lambda>e. e_id e = co_exercicesId dat) (exercices d) = None \<Longrightarrow>
     status (fst (optionsQCM_post None en d dat)) = 404"
  "bulkSchema exercicesId options \<Longrightarrow>
   find (\<lambda>e. e_id e = exercicesId) (exercices d) = None \<Longrightarrow>
     status (fst (optionsQCM_bulk None en d exercicesId options)) = 404"
  by (auto simp: optionsQCM_post_def optionsQCM_post_try_def optionsQCM_bulk_def
      optionsQCM_bulk_try_def response_defs)

text \<open>
  A body the validator of the exercise router refuses (an identifier that has not the
  cuid shape, for one) is answered 400 before any lookup.
\<close>

lemma exercices_validator_400:
  "\<not> createExerciceSchema ce \<Longrightarrow> status (fst (exercices_post fault en d ce)) = 400"
  "\<not> updateExerciceSchema ue \<Longrightarrow> status (fst (exercices_put fault en d i ue)) = 400"
  "\<not> createOptionQCMSchema co \<Longrightarrow> status (fst (optionsQCM_post fault en d co)) = 400"
  "\<not> bulkSchema exercicesId options \<Longrightarrow>
     status (fst (optionsQCM_bulk fault en d exercicesId options)) = 400"
  by (simp_all add: exercices_post_def exercices_put_def optionsQCM_post_def optionsQCM_bulk_def
      validation_failed_def)

text \<open>
  C4 as amended: while the storage layer works, the create and update handlers of
  subjects, lessons and sub-lessons answer 400 when the parent they look up does not
  exist (an update looks a parent up when it is given and, for lessons and sub-lessons,
  differs from the current one); the create handlers never answer 404 and the update
  handlers answer 404 only when the entity named by the path does not exist. The create
  and update handlers of exercises and the create handlers of answer options, given a
  body their validator accepts, answer 404 when a referenced subject, sub-lesson, lesson
  or exercise does not exist.
\<close>

theorem reference_check_status:
  "(find (\<lambda>c. c_id c = cm_classesId cm) (classes d) = None \<longrightarrow>
      status (fst (matieres_post None en d cm)) = 400) \<and>
   (find (\<lambda>m. m_id m = cl_matieresId cl) (matieres d) = None \<longrightarrow>
      status (fst (lecons_post None en d cl)) = 400) \<and>
   (find (\<lambda>l. l_id l = cs_leconsId cs) (lecons d) = None \<longrightarrow>
      status (fst (sousLecons_post None en d cs)) = 400) \<and>
   status (fst (matieres_post fault en d cm)) \<noteq> 404 \<and>
   status (fst (lecons_post fault en d cl)) \<noteq> 404 \<and>
   status (fst (sousLecons_post fault en d cs)) \<noteq> 404 \<and>
   (find (\<lambda>r. m_id r = i) (matieres d) \<noteq> None \<and> truthy (um_classesId um) \<and>
    find (\<lambda>c. Some (c_id c) = um_classesId um) (classes d) = None \<longrightarrow>
      status (fst (matieres_put None en d i um)) = 400) \<and>
   (i \<noteq> [] \<and> find (\<lambda>r. l_id r = i) (lecons d) = Some lecon \<and>
    truthy (ul_matieresId ul) \<and> ul_matieresId ul \<noteq> Some (l_matieresId lecon) \<and>
    find (\<lambda>m. Some (m_id m) = ul_matieresId ul) (matieres d) = None \<longrightarrow>
      status (fst (lecons_put None en d i ul)) = 400) \<and>
   (i \<noteq> [] \<and> find (\<lambda>r. s_id r = i) (sousLecons d) = Some souslecon \<and>
    truthy (usl_leconsId us) \<and> usl_leconsId us \<noteq> Some (s_leconsId souslecon) \<and>
    find (\<lambda>l. Some (l_id l) = usl_leconsId us) (lecons d) = None \<longrightarrow>
      status (fst (sousLecons_put None en d i us)) = 400) \<and>
   (status (fst (matieres_put fault en d i um)) = 404 \<longrightarrow>
      find (\<lambda>r. m_id r = i) (matieres d) = None) \<and>
   (status (fst (lecons_put fault en d i ul)) = 404 \<longrightarrow>
      find (\<lambda>r. l_id r = i) (lecons d) = None) \<and>
   (status (fst (sousLecons_put fault en d i us)) = 404 \<longrightarrow>
      find (\<lambda>r. s_id r = i) (sousLecons d) = None) \<and>
   (createExerciceSchema ce \<and>
    (find (\<lambda>m. m_id m = ce_matieresId ce) (matieres d) = None \<or>
     (truthy (ce_sousLeconsId ce) \<and>
      find (\<lambda>s. Some (s_id s) = ce_sousLeconsId ce) (sousLecons d) = None) \<or>
     (truthy (ce_leconId ce) \<and>
      find (\<lambda>l. Some (l_id l) = ce_leconId ce) (lecons d) = None)) \<longrightarrow>
      status (fst (exercices_post None en d ce)) = 404) \<and>
   (updateExerciceSchema ue \<and>
    ((truthy (ue_matieresId ue) \<and>
      find (\<lambda>m. Some (m_id m) = ue_matieresId ue) (matieres d) = None) \<or>
     (truthy_nullable (ue_sousLeconsId ue) \<and>
      find (\<lambda>s. Some (Some (s_id s)) = ue_sousLeconsId ue) (sousLecons d) = None) \<or>
     (truthy_nullable (ue_leconId ue) \<and>
      find (\<lambda>l. Some (Some (l_id l)) = ue_leconId ue) (lecons d) = None)) \<longrightarrow>
      status (fst (exercices_put None en d i ue)) = 404) \<and>
   (createOptionQCMSchema co \<and>
    find (\<lambda>e. e_id e = co_exercicesId co) (exercices d) = None \<longrightarrow>
      status (fst (optionsQCM_post None en d co)) = 404) \<and>
   (bulkSchema exercicesId options \<and>
    find (\<lambda>e. e_id e = exercicesId) (exercices d) = None \<longrightarrow>
      status (fst (optionsQCM_bulk None en d exercicesId options)) = 404)"
proof (intro conjI impI; (elim conjE)?)
  show "status (fst (matieres_post fault en d cm)) \<noteq> 404"
    by (rule matieres_post_status)
  show "status (fst (lecons_post fault en d cl)) \<noteq> 404"
    by (rule lecons_post_status)
  show "status (fst (sousLecons_post fault en d cs)) \<noteq> 404"
    by (rule sousLecons_post_status)
qed (erule matieres_post_status lecons_post_status sousLecons_post_status
      matieres_put_status lecons_put_status sousLecons_put_status
      exercices_post_status exercices_put_status optionsQCM_status; assumption?)+

text \<open>
  On the store whose identifiers have the cuid shape: a subject created or moved under
  a class that does not exist is answered 400; an exercise created or moved under a
  subject that does not exist, and an option created for an exercise that does not
  exist, are answered 404.
\<close>

theorem reference_check_status_witness:
  "find (\<lambda>c. c_id c = ''cclasse000000000000000009'') (classes store_cuid) = None \<and>
   status (fst (matieres_post None env0 store_cuid
     \<lparr>cm_nom = ''Histoire'', cm_description = None, cm_classesId = ''cclasse000000000000000009'',
      cm_pointsTotalMatiere = None, cm_pointsSeuilMatiere = None\<rparr>)) = 400 \<and>
   find (\<lambda>r. m_id r = ''cmatiere00000000000000001'') (matieres store_cuid) \<noteq> None \<and>
   status (fst (matieres_put None env0 store_cuid ''cmatiere00000000000000001''
     \<lparr>um_nom = None, um_description = None, um_classesId = Some ''cclasse000000000000000009'',
      um_pointsTotalMatiere = None, um_pointsSeuilMatiere = None\<rparr>)) = 400 \<and>
   createExerciceSchema
      \<lparr>ce_nom = ''Calcul'', ce_description = None, ce_matieresId = ''cmatiere00000000000000009'',
       ce_sousLeconsId = None, ce_leconId = None, ce_typesExercice = ''QCM''\<rparr> \<and>
   find (\<lambda>m. m_id m = ''cmatiere00000000000000009'') (matieres store_cuid) = None \<and>
   status (fst (exercices_post None env0 store_cuid
      \<lparr>ce_nom = ''Calcul'', ce_description = None, ce_matieresId = ''cmatiere00000000000000009'',
       ce_sousLeconsId = None, ce_leconId = None, ce_typesExercice = ''QCM''\<rparr>)) = 404 \<and>
   updateExerciceSchema
      \<lparr>ue_nom = None, ue_description = None, ue_matieresId = Some ''cmatiere00000000000000009'',
       ue_sousLeconsId = None, ue_leconId = None, ue_typesExercice = None\<rparr> \<and>
   status (fst (exercices_put None env0 store_cuid ''cexercice0000000000000001''
      \<lparr>ue_nom = None, ue_description = None, ue_matieresId = Some ''cmatiere00000000000000009'',
       ue_sousLeconsId = None, ue_leconId = None, ue_typesExercice = None\<rparr>)) = 404 \<and>
   createOptionQCMSchema
      \<lparr>co_nom = ''B'', co_description = None, co_exercicesId = ''cexercice0000000000000009'',
       co_points = None, co_isCorrect = False, co_isSelected = False\<rparr> \<and>
   find (\<lambda>e. e_id e = ''cexercice0000000000000009'') (exercices store_cuid) = None \<and>
   status (fst (optionsQCM_post None env0 store_cuid
      \<lparr>co_nom = ''B'', co_description = None, co_exercicesId = ''cexercice0000000000000009'',
       co_points = None, co_isCorrect = False, co_isSelected = False\<rparr>)) = 404"
proof -
  note t = reference_check_status [where d = store_cuid and en = env0
      and i = "''cmatiere00000000000000001''"
      and cm = "\<lparr>cm_nom = ''Histoire'', cm_description = None,
                  cm_classesId = ''cclasse000000000000000009'',
                  cm_pointsTotalMatiere = None, cm_pointsSeuilMatiere = None\<rparr>"
      and um = "\<lparr>um_nom = None, um_description = None,
                  um_classesId = Some ''cclasse000000000000000009'',
                  um_pointsTotalMatiere = None, um_pointsSeuilMatiere = None\<rparr>"
      and ce = "\<lparr>ce_nom = ''Calcul'', ce_description = None,
                  ce_matieresId = ''cmatiere00000000000000009'',
                  ce_sousLeconsId = None, ce_leconId = None, ce_typesExercice = ''QCM''\<rparr>"
      and co = "\<lparr>co_nom = ''B'', co_description = None,
                  co_exercicesId = ''cexercice0000000000000009'',
                  co_points = None, co_isCorrect = False, co_isSelected = False\<rparr>"]
  note u = reference_check_status [where d = store_cuid and en = env0
      and i = "''cexercice0000000000000001''"
      and ue = "\<lparr>ue_nom = None, ue_description = None,
                  ue_matieresId = Some ''cmatiere00000000000000009'',
                  ue_sousLeconsId = None, ue_leconId = None, ue_typesExercice = None\<rparr>"]
  have h1: "find (\<lambda>c. c_id c = ''cclasse000000000000000009'') (classes store_cuid) = None"
    by (simp add: store_defs)
  have h2: "find (\<lambda>r. m_id r = ''cmatiere00000000000000001'') (matieres store_cuid) \<noteq> None"
    by (simp add: store_defs)
  have h3: "find (\<lambda>m. m_id m = ''cmatiere00000000000000009'') (matieres store_cuid) = None"
    by (simp add: store_defs)
  have h4: "find (\<lambda>c. Some (c_id c) = Some ''cclasse000000000000000009'') (classes store_cuid) =
              None"
    by (simp add: store_defs)
  have h5: "find (\<lambda>m. Some (m_id m) = Some ''cmatiere00000000000000009'') (matieres store_cuid) =
              None"
    by (simp add: store_defs)
  have h6: "find (\<lambda>e. e_id e = ''cexercice0000000000000009'') (exercices store_cuid) = None"
    by (simp add: store_defs)
  have accepted: "createExerciceSchema
      \<lparr>ce_nom = ''Calcul'', ce_description = None, ce_matieresId = ''cmatiere00000000000000009'',
       ce_sousLeconsId = None, ce_leconId = None, ce_typesExercice = ''QCM''\<rparr>"
    "updateExerciceSchema
      \<lparr>ue_nom = None, ue_description = None, ue_matieresId = Some ''cmatiere00000000000000009'',
       ue_sousLeconsId = None, ue_leconId = None, ue_typesExercice = None\<rparr>"
    "createOptionQCMSchema
      \<lparr>co_nom = ''B'', co_description = None, co_exercicesId = ''cexercice0000000000000009'',
       co_points = None, co_isCorrect = False, co_isSelected = False\<rparr>"
    by (simp_all add: schema_defs)
  have "status (fst (matieres_post None env0 store_cuid
     \<lparr>cm_nom = ''Histoire'', cm_description = None, cm_classesId = ''cclasse000000000000000009'',
      cm_pointsTotalMatiere = None, cm_pointsSeuilMatiere = None\<rparr>)) = 400"
    using t [THEN conjunct1] h1 by simp
  moreover have "status (fst (matieres_put None env0 store_cuid ''cmatiere00000000000000001''
     \<lparr>um_nom = None, um_description = None, um_classesId = Some ''cclasse000000000000000009'',
      um_pointsTotalMatiere = None, um_pointsSeuilMatiere = None\<rparr>)) = 400"
    using t h2 h4 by (simp add: truthy_def)
  moreover have "status (fst (exercices_post None env0 store_cuid
      \<lparr>ce_nom = ''Calcul'', ce_description = None, ce_matieresId = ''cmatiere00000000000000009'',
       ce_sousLeconsId = None, ce_leconId = None, ce_typesExercice = ''QCM''\<rparr>)) = 404"
    using t h3 accepted(1) by simp
  moreover have "status (fst (optionsQCM_post None env0 store_cuid
      \<lparr>co_nom = ''B'', co_description = None, co_exercicesId = ''cexercice0000000000000009'',
       co_points = None, co_isCorrect = False, co_isSelected = False\<rparr>)) = 404"
    using t h6 accepted(3) by simp
  moreover have "status (fst (exercices_put None env0 store_cuid ''cexercice0000000000000001''
      \<lparr>ue_nom = None, ue_description = None, ue_matieresId = Some ''cmatiere00000000000000009'',
       ue_sousLeconsId = None, ue_leconId = None, ue_typesExercice = None\<rparr>)) = 404"
    using u h5 accepted(2) by (simp add: truthy_def)
  ultimately show ?thesis
    using h1 h2 h3 h6 accepted by simp
qed

subsection \<open>Renaming a record to its own name\<close>

text \<open>
  C5, evaluated on the handlers that break it. The claim is that an update which sets a
  record's name to its own current name, in the same or in another letter case, and
  keeps its parent succeeds, the lookup of the name leaving the record itself out. The
  update handlers of classes, lessons and sub-lessons look the name up, when it differs
  from the stored one, with \<open>NOT: { id }\<close> and \<open>mode: "insensitive"\<close>, which the
  sqlite client refuses: renaming the class "CM2" to "cm2", the lesson "Fractions" to
  "fractions" or the sub-lesson "Addition" to "addition" is answered 500 and nothing
  is written.
\<close>

theorem rename_case_variant_refused:
  "find (\<lambda>r. c_id r = ''c1'') (classes store_souslecon) = Some classe_cm2 \<and>
   c_nom classe_cm2 = ''CM2'' \<and> equals_insensitive ''cm2'' ''CM2'' \<and>
   status (fst (classes_put None env0 store_souslecon ''c1'' (Some ''cm2''))) = 500 \<and>
   snd (classes_put None env0 store_souslecon ''c1'' (Some ''cm2'')) = store_souslecon \<and>
   find (\<lambda>r. l_id r = ''l1'') (lecons store_souslecon) = Some lecon_fractions \<and>
   l_nom lecon_fractions = ''Fractions'' \<and> equals_insensitive ''fractions'' ''Fractions'' \<and>
   status (fst (lecons_put None env0 store_souslecon ''l1''
     \<lparr>ul_nom = Some ''fractions'', ul_description = None, ul_matieresId = None\<rparr>)) = 500 \<and>
   snd (lecons_put None env0 store_souslecon ''l1''
     \<lparr>ul_nom = Some ''fractions'', ul_description = None, ul_matieresId = None\<rparr>) =
     store_souslecon \<and>
   find (\<lambda>r. s_id r = ''s1'') (sousLecons store_souslecon) = Some souslecon_addition \<and>
   s_nom souslecon_addition = ''Addition'' \<and> equals_insensitive ''addition'' ''Addition'' \<and>
   status (fst (sousLecons_put None env0 store_souslecon ''s1''
     \<lparr>usl_nom = Some ''addition'', usl_description = None, usl_leconsId = None\<rparr>)) = 500 \<and>
   snd (sousLecons_put None env0 store_souslecon ''s1''
     \<lparr>usl_nom = Some ''addition'', usl_description = None, usl_leconsId = None\<rparr>) =
     store_souslecon"
  by (simp add: classes_put_def classes_put_try_def lecons_put_def lecons_put_try_def
      sousLecons_put_def sousLecons_put_try_def truthy_def mode_refused_def datasource_def
      Let_def store_defs response_defs insensitive_defs)

text \<open>
  The refusal is general: whenever the given name differs from the stored one, whatever
  the two names are.
\<close>

lemma classes_put_other_name_refused:
  assumes "i \<noteq> []" and "find (\<lambda>r. c_id r = i) (classes d) = Some classe"
    and "n \<noteq> []" and "n \<noteq> c_nom classe"
  shows "classes_put None en d i (Some n) =
           (failure 500 ''Erreur serveur lors de la mise a jour de la classe'', d)"
  using assms
  by (simp add: classes_put_def classes_put_try_def try_catch_def truthy_def mode_refused_def
      datasource_def Let_def)

text \<open>
  The rest of the claim holds. A rename to the very same name is not looked up by these
  three handlers and is written; the subject handler compares exactly and leaves the
  record itself out, so it writes both the same name and its case variant.
\<close>

lemma rename_same_case_written:
  "status (fst (classes_put None env0 store_souslecon ''c1'' (Some ''CM2''))) = 200"
  "classes (snd (classes_put None env0 store_souslecon ''c1'' (Some ''CM2''))) =
     [classe_cm2\<lparr>c_updatedAt := now env0\<rparr>]"
  "status (fst (lecons_put None env0 store_souslecon ''l1''
     \<lparr>ul_nom = Some ''Fractions'', ul_description = None, ul_matieresId = None\<rparr>)) = 200"
  "lecons (snd (lecons_put None env0 store_souslecon ''l1''
     \<lparr>ul_nom = Some ''Fractions'', ul_description = None, ul_matieresId = None\<rparr>)) =
     [lecon_fractions\<lparr>l_updatedAt := now env0\<rparr>]"
  "status (fst (sousLecons_put None env0 store_souslecon ''s1''
     \<lparr>usl_nom = Some ''Addition'', usl_description = None, usl_leconsId = None\<rparr>)) = 200"
  "sousLecons (snd (sousLecons_put None env0 store_souslecon ''s1''
     \<lparr>usl_nom = Some ''Addition'', usl_description = None, usl_leconsId = None\<rparr>)) =
     [souslecon_addition\<lparr>s_updatedAt := now env0\<rparr>]"
  by (simp_all add: classes_put_def classes_put_try_def classes_updated_def
      lecons_put_def lecons_put_try_def lecons_updated_def
      sousLecons_put_def sousLecons_put_try_def sousLecons_updated_def
      truthy_def override_def override_opt_def Let_def store_defs response_defs)

lemma matieres_put_own_name_written:
  "status (fst (matieres_put None env0 store_math ''m1''
     \<lparr>um_nom = Some ''Math'', um_description = None, um_classesId = Some ''c1'',
      um_pointsTotalMatiere = None, um_pointsSeuilMatiere = None\<rparr>)) = 200"
  "matieres (snd (matieres_put None env0 store_math ''m1''
     \<lparr>um_nom = Some ''Math'', um_description = None, um_classesId = Some ''c1'',
      um_pointsTotalMatiere = None, um_pointsSeuilMatiere = None\<rparr>)) =
     [matiere_math\<lparr>m_updatedAt := now env0\<rparr>]"
  "status (fst (matieres_put None env0 store_math ''m1''
     \<lparr>um_nom = Some ''math'', um_description = None, um_classesId = None,
      um_pointsTotalMatiere = None, um_pointsSeuilMatiere = None\<rparr>)) = 200"
  "matieres (snd (matieres_put None env0 store_math ''m1''
     \<lparr>um_nom = Some ''math'', um_description = None, um_classesId = None,
      um_pointsTotalMatiere = None, um_pointsSeuilMatiere = None\<rparr>)) =
     [matiere_math\<lparr>m_nom := ''math'', m_updatedAt := now env0\<rparr>]"
  by (simp_all add: matieres_put_def matieres_put_try_def matieres_updated_def
      truthy_def override_def override_opt_def Let_def store_defs response_defs)

text \<open>
  Where another sibling bears the name, the update is refused on account of that
  sibling: after the two creations of C1, renaming "Math" to "math" is answered 400.
\<close>

lemma matieres_put_name_of_sibling:
  "status (fst (matieres_put None env0
      (store_math\<lparr>matieres := [matiere_math, matiere_math\<lparr>m_id := ''m2'', m_nom := ''math''\<rparr>]\<rparr>)
      ''m1''
      \<lparr>um_nom = Some ''math'', um_description = None, um_classesId = None,
       um_pointsTotalMatiere = None, um_pointsSeuilMatiere = None\<rparr>)) = 400"
  by (simp add: matieres_put_def matieres_put_try_def truthy_def override_def Let_def
      store_defs response_defs)

subsection \<open>Login and registration\<close>

lemma login_success:
  assumes "find (\<lambda>u. u_email u = e) (user d) = Some usr" and "H p = u_password usr"
  shows "status (fst (login H None en d e p)) = 200 \<and>
         token_exp (fst (login H None en d e p)) = Some (now en div 1000 + 72 * 60 * 60)"
  using assms
  by (simp add: login_def login_try_def verifyPassword_def try_catch_def answered_def
      token_exp_def Let_def)

lemma login_refused:
  assumes "find (\<lambda>u. u_email u = e) (user d) = None \<or>
           (\<exists>usr. find (\<lambda>u. u_email u = e) (user d) = Some usr \<and> H p \<noteq> u_password usr)"
  shows "login H None en d e p = (error_only 400 ''Email ou mot de passe incorrect'', d)"
  using assms
  by (auto simp: login_def login_try_def verifyPassword_def try_catch_def)

lemma expiry_within_one_second:
  fixes t :: nat
  shows "1000 * (t div 1000 + 72 * 60 * 60) \<le> t + 72 * 60 * 60 * 1000 \<and>
         t + 72 * 60 * 60 * 1000 < 1000 * (t div 1000 + 72 * 60 * 60) + 1000"
proof -
  have lower: "1000 * (t div 1000) \<le> t"
    by simp
  have upper: "t < 1000 + 1000 * (t div 1000)"
    by (rule dividend_less_times_div) simp
  from lower upper show ?thesis
    by (simp add: distrib_left)
qed

text \<open>
  C6: while the storage layer works, a login with the email of a user and the password
  whose digest is stored for that user is answered 200 with a token whose \<open>exp\<close>,
  in seconds, is within one second of the issuance time plus 72 hours (the clock being
  in milliseconds, \<open>1000 * exp\<close> lies in the last second up to
  \<open>now + 72 * 60 * 60 * 1000\<close>); a login with an unknown email and a login with a known
  email and a wrong password both get the same response, status 400 with the message
  "Email ou mot de passe incorrect", and leave the store as it is.
\<close>

theorem login_contract:
  "(find (\<lambda>u. u_email u = e) (user d) = Some usr \<and> H p = u_password usr \<longrightarrow>
      status (fst (login H None en d e p)) = 200 \<and>
      (\<exists>x. token_exp (fst (login H None en d e p)) = Some x \<and>
           1000 * x \<le> now en + 72 * 60 * 60 * 1000 \<and>
           now en + 72 * 60 * 60 * 1000 < 1000 * x + 1000)) \<and>
   (find (\<lambda>u. u_email u = e) (user d) = None \<longrightarrow>
      login H None en d e p = (error_only 400 ''Email ou mot de passe incorrect'', d)) \<and>
   (find (\<lambda>u. u_email u = e) (user d) = Some usr \<and> H p \<noteq> u_password usr \<longrightarrow>
      login H None en d e p = (error_only 400 ''Email ou mot de passe incorrect'', d))"
  (is "?A \<and> ?B \<and> ?C")
proof -
  have "?A"
  proof
    assume "find (\<lambda>u. u_email u = e) (user d) = Some usr \<and> H p = u_password usr"
    then have "status (fst (login H None en d e p)) = 200"
      and "token_exp (fst (login H None en d e p)) = Some (now en div 1000 + 72 * 60 * 60)"
      using login_success [of e d usr H p en] by blast+
    with expiry_within_one_second [of "now en"]
    show "status (fst (login H None en d e p)) = 200 \<and>
      (\<exists>x. token_exp (fst (login H None en d e p)) = Some x \<and>
           1000 * x \<le> now en + 72 * 60 * 60 * 1000 \<and>
           now en + 72 * 60 * 60 * 1000 < 1000 * x + 1000)"
      by blast
  qed
  moreover have "?B"
    by (intro impI, rule login_refused) blast
  moreover have "?C"
    by (intro impI, rule login_refused) blast
  ultimately show ?thesis
    by (intro conjI)
qed

theorem login_contract_witness:
  "status (fst (login (\<lambda>s. ''#'' @ s) None env0
      (store_math\<lparr>user := [user_alice (\<lambda>s. ''#'' @ s)]\<rparr>) ''alice@example.org'' ''secret1'')) = 200 \<and>
   token_exp (fst (login (\<lambda>s. ''#'' @ s) None env0
      (store_math\<lparr>user := [user_alice (\<lambda>s. ''#'' @ s)]\<rparr>) ''alice@example.org'' ''secret1''))
     \<noteq> None \<and>
   status (fst (login (\<lambda>s. ''#'' @ s) None env0
      (store_math\<lparr>user := [user_alice (\<lambda>s. ''#'' @ s)]\<rparr>) ''alice@example.org'' ''secret2'')) = 400 \<and>
   login (\<lambda>s. ''#'' @ s) None env0
      (store_math\<lparr>user := [user_alice (\<lambda>s. ''#'' @ s)]\<rparr>) ''bob@example.org'' ''secret1'' =
   login (\<lambda>s. ''#'' @ s) None env0
      (store_math\<lparr>user := [user_alice (\<lambda>s. ''#'' @ s)]\<rparr>) ''alice@example.org'' ''secret2''"
proof -
  let ?H = "\<lambda>s. ''#'' @ s"
  let ?d = "store_math\<lparr>user := [user_alice ?H]\<rparr>"
  have found: "find (\<lambda>u. u_email u = ''alice@example.org'') (user ?d) = Some (user_alice ?H)"
    and missing: "find (\<lambda>u. u_email u = ''bob@example.org'') (user ?d) = None"
    by (simp_all add: store_defs)
  have ok: "?H ''secret1'' = u_password (user_alice ?H)"
    and wrong: "?H ''secret2'' \<noteq> u_password (user_alice ?H)"
    by (simp_all add: user_alice_def)
  from login_contract [where H = ?H and d = ?d and en = env0 and e = "''alice@example.org''"
      and p = "''secret1''" and usr = "user_alice ?H"] found ok
  have a: "status (fst (login ?H None env0 ?d ''alice@example.org'' ''secret1'')) = 200 \<and>
           token_exp (fst (login ?H None env0 ?d ''alice@example.org'' ''secret1'')) \<noteq> None"
    by auto
  from login_contract [where H = ?H and d = ?d and en = env0 and e = "''alice@example.org''"
      and p = "''secret2''" and usr = "user_alice ?H"] found wrong
  have b: "login ?H None env0 ?d ''alice@example.org'' ''secret2'' =
           (error_only 400 ''Email ou mot de passe incorrect'', ?d)"
    by blast
  from login_contract [where H = ?H and d = ?d and en = env0 and e = "''bob@example.org''"
      and p = "''secret1''"] missing
  have c: "login ?H None env0 ?d ''bob@example.org'' ''secret1'' =
           (error_only 400 ''Email ou mot de passe incorrect'', ?d)"
    by blast
  from a b c show ?thesis
    by (simp add: error_only_def)
qed

lemma register_creates_no_user:
  "snd (register H fault en d dat) = d \<and> status (fst (register H fault en d dat)) \<noteq> 201"
  by (simp add: register_def register_try_def user_requested_def TypesUtilisateur_def
      try_catch_def error_only_def split: option.splits)

text \<open>
  C7, evaluated on the handler. The claim is that registration stores the new user with
  the default role STUDENT (\<open>ELEVE\<close> in the schema) and answers the record without
  the password. The handler asks for a row with \<open>typesUtilisateur: "USER"\<close>, a value
  that is neither the schema's default nor a member of its enumeration
  \<open>TypesUtilisateur\<close>: the client refuses the create, the \<open>catch\<close> block answers 500
  and no user is stored.
\<close>

theorem register_role_USER_refused:
  "status (fst (register H None env0 store_empty
      \<lparr>rg_email = ''bob@example.org'', rg_nom = None, rg_prenom = None,
       rg_password = ''secret1'', rg_dataInscription = None\<rparr>)) = 500 \<and>
   snd (register H None env0 store_empty
      \<lparr>rg_email = ''bob@example.org'', rg_nom = None, rg_prenom = None,
       rg_password = ''secret1'', rg_dataInscription = None\<rparr>) = store_empty \<and>
   user store_empty = [] \<and>
   u_typesUtilisateur (user_requested H env0
      \<lparr>rg_email = ''bob@example.org'', rg_nom = None, rg_prenom = None,
       rg_password = ''secret1'', rg_dataInscription = None\<rparr>) = ''USER'' \<and>
   ''USER'' \<noteq> ''ELEVE'' \<and> ''USER'' \<notin> set TypesUtilisateur"
  by (simp add: register_def register_try_def user_requested_def TypesUtilisateur_def
      store_defs response_defs)

subsection \<open>Answer options and the deletion of exercises\<close>

lemma optionsQCM_post_not_qcm:
  assumes "find (\<lambda>e. e_id e = co_exercicesId co) (exercices d) = Some exercice"
    and "e_typesExercice exercice \<noteq> ''QCM''"
  shows "status (fst (optionsQCM_post None en d co)) = 400 \<and>
         snd (optionsQCM_post None en d co) = d"
  using assms
  by (simp add: optionsQCM_post_def optionsQCM_post_try_def try_catch_def error_only_def
      validation_failed_def)

lemma optionsQCM_bulk_not_qcm:
  assumes "find (\<lambda>e. e_id e = exercicesId) (exercices d) = Some exercice"
    and "e_typesExercice exercice \<noteq> ''QCM''"
  shows "status (fst (optionsQCM_bulk None en d exercicesId options)) = 400 \<and>
         snd (optionsQCM_bulk None en d exercicesId options) = d"
  using assms
  by (simp add: optionsQCM_bulk_def optionsQCM_bulk_try_def try_catch_def error_only_def
      validation_failed_def)

lemma optionsQCM_post_created:
  assumes "status (fst (optionsQCM_post fault en d co)) = 201 \<or>
           optionsQCM (snd (optionsQCM_post fault en d co)) \<noteq> optionsQCM d"
  shows "\<exists>exercice. find (\<lambda>e. e_id e = co_exercicesId co) (exercices d) = Some exercice \<and>
           e_typesExercice exercice = ''QCM''"
  using assms
  by (auto simp: optionsQCM_post_def optionsQCM_post_try_def response_defs Let_def
      validation_failed_def split: option.splits if_splits)

lemma optionsQCM_bulk_created:
  assumes "status (fst (optionsQCM_bulk fault en d exercicesId options)) = 201 \<or>
           optionsQCM (snd (optionsQCM_bulk fault en d exercicesId options)) \<noteq> optionsQCM d"
  shows "\<exists>exercice. find (\<lambda>e. e_id e = exercicesId) (exercices d) = Some exercice \<and>
           e_typesExercice exercice = ''QCM''"
  using assms
  by (auto simp: optionsQCM_bulk_def optionsQCM_bulk_try_def response_defs Let_def
      validation_failed_def split: option.splits if_splits)

text \<open>
  C9: while the storage layer works, creating an answer option, alone or in bulk, for an
  existing exercise whose \<open>typesExercice\<close> is not QCM is answered 400 and leaves the
  store as it is; and, whether the storage layer works or not, a creation is answered
  201 or changes the table of options only when the referenced exercise exists and is
  of type QCM.
\<close>

theorem options_only_for_qcm:
  "(find (\<lambda>e. e_id e = co_exercicesId co) (exercices d) = Some exercice \<and>
    e_typesExercice exercice \<noteq> ''QCM'' \<longrightarrow>
      status (fst (optionsQCM_post None en d co)) = 400 \<and>
      snd (optionsQCM_post None en d co) = d) \<and>
   (find (\<lambda>e. e_id e = exercicesId) (exercices d) = Some exercice \<and>
    e_typesExercice exercice \<noteq> ''QCM'' \<longrightarrow>
      status (fst (optionsQCM_bulk None en d exercicesId options)) = 400 \<and>
      snd (optionsQCM_bulk None en d exercicesId options) = d) \<and>
   (status (fst (optionsQCM_post fault en d co)) = 201 \<or>
    optionsQCM (snd (optionsQCM_post fault en d co)) \<noteq> optionsQCM d \<longrightarrow>
      (\<exists>found. find (\<lambda>e. e_id e = co_exercicesId co) (exercices d) = Some found \<and>
         e_typesExercice found = ''QCM'')) \<and>
   (status (fst (optionsQCM_bulk fault en d exercicesId options)) = 201 \<or>
    optionsQCM (snd (optionsQCM_bulk fault en d exercicesId options)) \<noteq> optionsQCM d \<longrightarrow>
      (\<exists>found. find (\<lambda>e. e_id e = exercicesId) (exercices d) = Some found \<and>
         e_typesExercice found = ''QCM''))"
  (is "?A \<and> ?B \<and> ?C \<and> ?D")
proof -
  have "?A"
    by (intro impI, elim conjE) (rule optionsQCM_post_not_qcm; assumption)
  moreover have "?B"
    by (intro impI, elim conjE) (rule optionsQCM_bulk_not_qcm; assumption)
  moreover have "?C"
    by (intro impI) (rule optionsQCM_post_created)
  moreover have "?D"
    by (intro impI) (rule optionsQCM_bulk_created)
  ultimately show ?thesis
    by (intro conjI)
qed

text \<open>
  On a store whose exercises have identifiers of the cuid shape, the body of an option
  for the Numerique exercise passes the validator and is refused by the handler, alone
  and in bulk; the option for the QCM exercise is created.
\<close>

theorem options_only_for_qcm_witness:
  "createOptionQCMSchema
      \<lparr>co_nom = ''B'', co_description = None, co_exercicesId = ''cexercice0000000000000001'',
       co_points = None, co_isCorrect = False, co_isSelected = False\<rparr> \<and>
   bulkSchema ''cexercice0000000000000001''
      [\<lparr>bo_nom = ''B'', bo_description = None, bo_points = None, bo_isCorrect = False\<rparr>] \<and>
   status (fst (optionsQCM_post None env0 store_cuid
      \<lparr>co_nom = ''B'', co_description = None, co_exercicesId = ''cexercice0000000000000001'',
       co_points = None, co_isCorrect = False, co_isSelected = False\<rparr>)) = 400 \<and>
   snd (optionsQCM_post None env0 store_cuid
      \<lparr>co_nom = ''B'', co_description = None, co_exercicesId = ''cexercice0000000000000001'',
       co_points = None, co_isCorrect = False, co_isSelected = False\<rparr>) = store_cuid \<and>
   status (fst (optionsQCM_bulk None env0 store_cuid ''cexercice0000000000000001''
      [\<lparr>bo_nom = ''B'', bo_description = None, bo_points = None, bo_isCorrect = False\<rparr>])) = 400 \<and>
   status (fst (optionsQCM_post None env0 store_cuid
      \<lparr>co_nom = ''B'', co_description = None, co_exercicesId = ''cexercice0000000000000002'',
       co_points = None, co_isCorrect = False, co_isSelected = False\<rparr>)) = 201 \<and>
   find (\<lambda>e. e_id e = ''cexercice0000000000000002'') (exercices store_cuid) =
     Some exercice_cuid_qcm"
proof -
  have e1: "find (\<lambda>e. e_id e = ''cexercice0000000000000001'') (exercices store_cuid) =
              Some exercice_cuid_numerique"
    and e2: "find (\<lambda>e. e_id e = ''cexercice0000000000000002'') (exercices store_cuid) =
              Some exercice_cuid_qcm"
    by (simp_all add: store_defs)
  have kind: "e_typesExercice exercice_cuid_numerique \<noteq> ''QCM''"
    by (simp add: exercice_cuid_numerique_def)
  have accepted: "createOptionQCMSchema
      \<lparr>co_nom = ''B'', co_description = None, co_exercicesId = ''cexercice0000000000000001'',
       co_points = None, co_isCorrect = False, co_isSelected = False\<rparr>"
    "createOptionQCMSchema
      \<lparr>co_nom = ''B'', co_description = None, co_exercicesId = ''cexercice0000000000000002'',
       co_points = None, co_isCorrect = False, co_isSelected = False\<rparr>"
    "bulkSchema ''cexercice0000000000000001''
      [\<lparr>bo_nom = ''B'', bo_description = None, bo_points = None, bo_isCorrect = False\<rparr>]"
    by (simp_all add: schema_defs)
  have created: "status (fst (optionsQCM_post None env0 store_cuid
      \<lparr>co_nom = ''B'', co_description = None, co_exercicesId = ''cexercice0000000000000002'',
       co_points = None, co_isCorrect = False, co_isSelected = False\<rparr>)) = 201"
    using e2 accepted(2)
    by (simp add: optionsQCM_post_def optionsQCM_post_try_def response_defs
        exercice_cuid_qcm_def Let_def)
  from options_only_for_qcm [where d = store_cuid and en = env0
      and exercicesId = "''cexercice0000000000000001''"
      and exercice = exercice_cuid_numerique
      and co = "\<lparr>co_nom = ''B'', co_description = None,
                  co_exercicesId = ''cexercice0000000000000001'',
                  co_points = None, co_isCorrect = False, co_isSelected = False\<rparr>"
      and options = "[\<lparr>bo_nom = ''B'', bo_description = None, bo_points = None,
                        bo_isCorrect = False\<rparr>]"] e1 kind
  have "status (fst (optionsQCM_post None env0 store_cuid
      \<lparr>co_nom = ''B'', co_description = None, co_exercicesId = ''cexercice0000000000000001'',
       co_points = None, co_isCorrect = False, co_isSelected = False\<rparr>)) = 400 \<and>
   snd (optionsQCM_post None env0 store_cuid
      \<lparr>co_nom = ''B'', co_description = None, co_exercicesId = ''cexercice0000000000000001'',
       co_points = None, co_isCorrect = False, co_isSelected = False\<rparr>) = store_cuid \<and>
   status (fst (optionsQCM_bulk None env0 store_cuid ''cexercice0000000000000001''
      [\<lparr>bo_nom = ''B'', bo_description = None, bo_points = None, bo_isCorrect = False\<rparr>])) = 400"
    by simp
  moreover
  from options_only_for_qcm [where d = store_cuid and en = env0 and fault = None
      and co = "\<lparr>co_nom = ''B'', co_description = None,
                  co_exercicesId = ''cexercice0000000000000002'',
                  co_points = None, co_isCorrect = False, co_isSelected = False\<rparr>"] created
  have "\<exists>found. find (\<lambda>e. e_id e = ''cexercice0000000000000002'') (exercices store_cuid) =
          Some found \<and> e_typesExercice found = ''QCM''"
    by simp
  ultimately show ?thesis
    using created e2 accepted by simp
qed

text \<open>
  C10, evaluated on the handler. The claim is that the delete endpoint removes an
  existing exercise even when options or answers reference it, and reports their counts.
  The handler has no guard and expects a cascade, but the foreign keys of the options
  and of the answers are \<open>ON DELETE RESTRICT\<close>: deleting the exercise "e2", which
  the option "o1" references, makes the storage engine raise, the handler answers 500
  and nothing is deleted.
\<close>

theorem exercices_delete_with_option_refused:
  "find (\<lambda>r. e_id r = ''e2'') (exercices store_exercices) = Some exercice_qcm \<and>
   filter (\<lambda>q. o_exercicesId q = ''e2'') (optionsQCM store_exercices) = [option_a] \<and>
   status (fst (exercices_delete None store_exercices ''e2'')) = 500 \<and>
   snd (exercices_delete None store_exercices ''e2'') = store_exercices"
  by (simp add: exercices_delete_def exercices_delete_try_def exercices_delete_row_def
      store_defs response_defs)

text \<open>
  So the delete succeeds exactly for an exercise without options and answers, and the
  counts of a success response are both 0.
\<close>

lemma exercices_delete_without_dependents:
  assumes "find (\<lambda>r. e_id r = i) (exercices d) \<noteq> None"
    and "\<not> list_ex (\<lambda>q. o_exercicesId q = i) (optionsQCM d)"
    and "\<not> list_ex (\<lambda>r. r_exercicesId r = i) (reponses d)"
  shows "exercices_delete None d i =
           (answered 200 ''Exercice supprime avec succes'' (DeletedRelations 0 0),
            d\<lparr>exercices := filter (\<lambda>r. e_id r \<noteq> i) (exercices d)\<rparr>)"
proof -
  have "filter (\<lambda>q. o_exercicesId q = i) (optionsQCM d) = []"
    and "filter (\<lambda>r. r_exercicesId r = i) (reponses d) = []"
    using assms(2,3) by (simp_all add: filter_Nil_list_ex)
  with assms show ?thesis
    by (auto simp: exercices_delete_def exercices_delete_try_def exercices_delete_row_def
        try_catch_def)
qed

lemma exercices_delete_with_dependents:
  assumes "find (\<lambda>r. e_id r = i) (exercices d) \<noteq> None"
    and "list_ex (\<lambda>q. o_exercicesId q = i) (optionsQCM d) \<or>
         list_ex (\<lambda>r. r_exercicesId r = i) (reponses d)"
  shows "exercices_delete None d i = (error_only 500 ''Erreur serveur'', d)"
  using assms
  by (auto simp: exercices_delete_def exercices_delete_try_def exercices_delete_row_def
      try_catch_def)


end
